theory Spec2Isabelle
  imports Complex_Main "HOL-Library.Finite_Map"
begin

section \<open>JSON documents and the JavaScript operations the server applies to them\<close>

text \<open>
  \<open>server.js\<close> keeps three JSON documents (speakers, content, users) in files and
  serves them through express handlers. A document is a value of \<open>json\<close>. An object
  is a finite map from property names to values, so equality of \<open>json\<close> values is deep
  equality and the enumeration order of properties is not represented. A string is
  a list of code units (code units below 256 only).

  A JavaScript number is a double. \<open>JNum n\<close> stands for the number whose value is the
  integer \<open>n\<close>; numbers with a fraction are not represented. The theory computes
  with the integers, which is what JavaScript does as long as the numbers are safe
  integers (\<open>Number.isSafeInteger\<close>: below \<open>2^53\<close> in absolute value). Where a
  handler adds to a number beyond that range, or compares two such numbers of which
  one was parsed from a path, the computation of the model ends with
  \<open>NotRepresented\<close>. A request body that holds a number beyond that range, which
  \<open>JSON.parse\<close> rounds to a double, is not represented either.

  The source file holds two revisions of \<open>server.js\<close>; the handlers here are those
  of the second one, with sessions and users. Requests are handled one at a time.

  A data file holds \<open>JSON.stringify(data, null, 2)\<close> and is read back with
  \<open>JSON.parse\<close>. For a JSON document the two are inverse to each other, so a file is
  represented by the document it holds together with its modification time.
  File-system failures are not represented.
\<close>

datatype json =
    JNull
  | JBool bool
  | JNum int
  | JStr string
  | JArr "json list"
  | JObj "(string, json) fmap"

type_synonym time = rat

text \<open>How a computation ends when it returns no value: with the \<open>TypeError\<close> that
  JavaScript throws, or at a number this theory does not represent.\<close>

datatype error = TypeError | NotRepresented

definition isSafeInteger :: "int \<Rightarrow> bool" where
  "isSafeInteger n = (- (2 ^ 53) < n \<and> n < 2 ^ 53)"

text \<open>\<open>!v\<close> is \<open>\<not> truthy v\<close>; \<open>None\<close> stands for \<open>undefined\<close>.\<close>

fun truthy :: "json \<Rightarrow> bool" where
  "truthy JNull = False"
| "truthy (JBool b) = b"
| "truthy (JNum n) = (n \<noteq> 0)"
| "truthy (JStr s) = (s \<noteq> [])"
| "truthy (JArr xs) = True"
| "truthy (JObj m) = True"

fun truthy_opt :: "json option \<Rightarrow> bool" where
  "truthy_opt None = False"
| "truthy_opt (Some v) = truthy v"

text \<open>
  \<open>a === b\<close>. Primitives are compared by type and value. Two objects or arrays are
  equal only when they are the same reference; every comparison in \<open>server.js\<close> is
  between a value parsed from a data file and a value that came with the request, and
  those are never the same reference.
\<close>

fun strict_eq :: "json option \<Rightarrow> json option \<Rightarrow> bool" where
  "strict_eq None None = True"
| "strict_eq (Some JNull) (Some JNull) = True"
| "strict_eq (Some (JBool a)) (Some (JBool b)) = (a = b)"
| "strict_eq (Some (JNum a)) (Some (JNum b)) = (a = b)"
| "strict_eq (Some (JStr a)) (Some (JStr b)) = (a = b)"
| "strict_eq _ _ = False"

text \<open>
  \<open>v.k\<close> for the property names the server reads (\<open>id\<close>, \<open>username\<close>,
  \<open>passwordHash\<close>, \<open>createdAt\<close>, \<open>passwordChangedAt\<close>, \<open>lastLogin\<close>, \<open>password\<close>):
  a TypeError on \<open>null\<close>, the property of an object, \<open>undefined\<close> on anything else
  (none of these names is an index or \<open>length\<close>).
\<close>

fun get_prop :: "json \<Rightarrow> string \<Rightarrow> error + json option" where
  "get_prop JNull k = Inl TypeError"
| "get_prop (JObj m) k = Inr (fmlookup m k)"
| "get_prop (JBool b) k = Inr None"
| "get_prop (JNum n) k = Inr None"
| "get_prop (JStr s) k = Inr None"
| "get_prop (JArr xs) k = Inr None"

text \<open>Decimal rendering of an array index, as the property name it is spread under.\<close>

definition digit_char :: "nat \<Rightarrow> char" where
  "digit_char d = char_of (48 + d)"

function show_nat :: "nat \<Rightarrow> string" where
  "show_nat n = (if n < 10 then [digit_char n] else show_nat (n div 10) @ [digit_char (n mod 10)])"
  by pat_completeness auto
termination
  by (relation "measure (\<lambda>n. n)") auto

declare show_nat.simps [simp del]

text \<open>
  The own enumerable properties that \<open>{...v}\<close> copies: the properties of an object,
  the elements of an array under their indices, the characters of a string under
  their indices, nothing for the other values.
\<close>

fun own_props :: "json \<Rightarrow> (string, json) fmap" where
  "own_props (JObj m) = m"
| "own_props (JArr xs) = fmap_of_list (zip (map show_nat [0..<length xs]) xs)"
| "own_props (JStr s) =
     fmap_of_list (zip (map show_nat [0..<length s]) (map (\<lambda>c. JStr [c]) s))"
| "own_props JNull = fmempty"
| "own_props (JBool b) = fmempty"
| "own_props (JNum n) = fmempty"

text \<open>
  \<open>Array.prototype.find\<close>, \<open>findIndex\<close>, \<open>filter\<close> and \<open>map\<close> with a callback
  that may throw: the exception of the callback leaves the loop.
\<close>

fun find_js :: "(json \<Rightarrow> error + bool) \<Rightarrow> json list \<Rightarrow> error + json option" where
  "find_js p [] = Inr None"
| "find_js p (x # xs) =
     (case p x of
        Inl e \<Rightarrow> Inl e
      | Inr b \<Rightarrow> if b then Inr (Some x) else find_js p xs)"

fun findIndex_js :: "(json \<Rightarrow> error + bool) \<Rightarrow> json list \<Rightarrow> error + nat option" where
  "findIndex_js p [] = Inr None"
| "findIndex_js p (x # xs) =
     (case p x of
        Inl e \<Rightarrow> Inl e
      | Inr b \<Rightarrow>
          if b then Inr (Some 0)
          else (case findIndex_js p xs of
                  Inl e \<Rightarrow> Inl e
                | Inr None \<Rightarrow> Inr None
                | Inr (Some i) \<Rightarrow> Inr (Some (Suc i))))"

fun filter_js :: "(json \<Rightarrow> error + bool) \<Rightarrow> json list \<Rightarrow> error + json list" where
  "filter_js p [] = Inr []"
| "filter_js p (x # xs) =
     (case p x of
        Inl e \<Rightarrow> Inl e
      | Inr b \<Rightarrow>
          (case filter_js p xs of
             Inl e \<Rightarrow> Inl e
           | Inr ys \<Rightarrow> Inr (if b then x # ys else ys)))"

fun map_js :: "(json \<Rightarrow> error + 'b) \<Rightarrow> json list \<Rightarrow> error + 'b list" where
  "map_js f [] = Inr []"
| "map_js f (x # xs) =
     (case f x of
        Inl e \<Rightarrow> Inl e
      | Inr y \<Rightarrow>
          (case map_js f xs of
             Inl e \<Rightarrow> Inl e
           | Inr ys \<Rightarrow> Inr (y # ys)))"

subsection \<open>\<open>parseInt\<close> of a path parameter\<close>

text \<open>
  \<open>parseInt(string)\<close> without a radix: leading white space is skipped, one sign is
  read, a prefix \<open>0x\<close> or \<open>0X\<close> selects radix 16 and is removed, otherwise the radix is
  10; the longest prefix of digits of that radix is read. \<open>readInteger\<close> is the
  integer that these steps read, with its sign (\<open>None\<close>: there is no digit).
\<close>

definition isWhiteSpace :: "char \<Rightarrow> bool" where
  "isWhiteSpace c = ((of_char c :: nat) \<in> {9, 10, 11, 12, 13, 32, 160})"

definition digitValue :: "char \<Rightarrow> nat option" where
  "digitValue c =
     (let n = (of_char c :: nat) in
      if 48 \<le> n \<and> n \<le> 57 then Some (n - 48)
      else if 97 \<le> n \<and> n \<le> 122 then Some (n - 87)
      else if 65 \<le> n \<and> n \<le> 90 then Some (n - 55)
      else None)"

definition isRadixDigit :: "nat \<Rightarrow> char \<Rightarrow> bool" where
  "isRadixDigit R c = (case digitValue c of None \<Rightarrow> False | Some d \<Rightarrow> d < R)"

definition mathInt :: "nat \<Rightarrow> string \<Rightarrow> int" where
  "mathInt R ds =
     fold (\<lambda>c acc. acc * int R + (case digitValue c of None \<Rightarrow> 0 | Some d \<Rightarrow> int d)) ds 0"

definition hasHexPrefix :: "string \<Rightarrow> bool" where
  "hasHexPrefix s = (take 2 s = ''0x'' \<or> take 2 s = ''0X'')"

definition readInteger :: "string \<Rightarrow> int option" where
  "readInteger inputString =
     (let S = dropWhile isWhiteSpace inputString;
          sign = (if S \<noteq> [] \<and> hd S = CHR ''-'' then - 1 else 1 :: int);
          S1 = (if S \<noteq> [] \<and> (hd S = CHR ''+'' \<or> hd S = CHR ''-'') then tl S else S);
          R = (if hasHexPrefix S1 then 16 else 10 :: nat);
          S2 = (if hasHexPrefix S1 then drop 2 S1 else S1);
          Z = takeWhile (isRadixDigit R) S2
      in if Z = [] then None else Some (sign * mathInt R Z))"

text \<open>
  The number that \<open>parseInt\<close> returns: \<open>NaN\<close> when no digit was read, otherwise
  the double nearest to the integer read. That double is the integer itself when the
  integer is a safe one (\<open>SafeInt\<close>). When it is not, the double is at least
  \<open>2^53\<close> in absolute value, or an infinity: \<open>NotSafe\<close> stands for it, and its
  value is not represented.
\<close>

datatype number = NaN | SafeInt int | NotSafe

definition parseInt :: "string \<Rightarrow> number" where
  "parseInt inputString =
     (case readInteger inputString of
        None \<Rightarrow> NaN
      | Some n \<Rightarrow> if isSafeInteger n then SafeInt n else NotSafe)"

text \<open>
  \<open>v === parseInt(string)\<close>: \<open>NaN\<close> equals nothing, and a number that is no safe
  integer differs from every safe integer; whether it equals a \<open>v\<close> that is no safe
  integer either is not represented.
\<close>

fun strict_eq_num :: "json option \<Rightarrow> number \<Rightarrow> error + bool" where
  "strict_eq_num (Some (JNum a)) (SafeInt b) = Inr (a = b)"
| "strict_eq_num (Some (JNum a)) NotSafe =
     (if isSafeInteger a then Inr False else Inl NotRepresented)"
| "strict_eq_num _ _ = Inr False"

section \<open>Files, module-level cache variables and wrapper objects\<close>

datatype path = SPEAKERS_FILE | CONTENT_FILE | USERS_FILE

record data_file =
  content :: json
  mtimeMs :: time

datatype log_entry = CacheRefreshed path

text \<open>
  The state of the process: the four module-level cache variables, the files, the
  console, and a store for the wrapper objects \<open>{ value: ... }\<close> that
  \<open>readSpeakersCached\<close> and \<open>readContentCached\<close> allocate. A wrapper holding a
  document lives in \<open>cacheRefs\<close>, a wrapper holding a time stamp in
  \<open>timestampRefs\<close>; \<open>allocated\<close> is the next free address.
\<close>

record server =
  speakersCache :: json
  speakersTimestamp :: time
  contentCache :: json
  contentTimestamp :: time
  fs :: "path \<Rightarrow> data_file"
  console :: "log_entry list"
  cacheRefs :: "nat \<Rightarrow> json"
  timestampRefs :: "nat \<Rightarrow> time"
  allocated :: nat

text \<open>
  The readings of \<open>Date.now()\<close> and the modification time the file system stamps on
  a written file, during one request: \<open>now_check\<close> is read by the staleness test of
  \<open>readCached\<close>, \<open>now_refresh\<close> by its refresh, \<open>now_write\<close> by
  \<open>writeSpeakersCached\<close> and \<open>writeContentCached\<close>.
\<close>

record env =
  now_check :: time
  now_refresh :: time
  now_write :: time
  mtime_write :: time

definition CACHE_TTL :: time where
  "CACHE_TTL = 1000 * 60"

definition new_cacheRef :: "json \<Rightarrow> server \<Rightarrow> nat \<times> server" where
  "new_cacheRef v st =
     (allocated st,
      st\<lparr>cacheRefs := (cacheRefs st)(allocated st := v), allocated := Suc (allocated st)\<rparr>)"

definition new_timestampRef :: "time \<Rightarrow> server \<Rightarrow> nat \<times> server" where
  "new_timestampRef t st =
     (allocated st,
      st\<lparr>timestampRefs := (timestampRefs st)(allocated st := t),
         allocated := Suc (allocated st)\<rparr>)"

definition readCached :: "path \<Rightarrow> nat \<Rightarrow> nat \<Rightarrow> env \<Rightarrow> server \<Rightarrow> json \<times> server" where
  "readCached f cacheRef timestampRef e st =
     (let modified = mtimeMs (fs st f) in
      if \<not> truthy (cacheRefs st cacheRef)
         \<or> modified > timestampRefs st timestampRef
         \<or> now_check e - timestampRefs st timestampRef > CACHE_TTL
      then
        let data = content (fs st f);
            st1 = st\<lparr>cacheRefs := (cacheRefs st)(cacheRef := data)\<rparr>;
            st2 = st1\<lparr>timestampRefs := (timestampRefs st1)(timestampRef := now_refresh e)\<rparr>;
            st3 = st2\<lparr>console := console st2 @ [CacheRefreshed f]\<rparr>
        in (cacheRefs st3 cacheRef, st3)
      else (cacheRefs st cacheRef, st))"

definition readSpeakersCached :: "env \<Rightarrow> server \<Rightarrow> json \<times> server" where
  "readSpeakersCached e st =
     (let (cacheRef, st1) = new_cacheRef (speakersCache st) st;
          (timestampRef, st2) = new_timestampRef (speakersTimestamp st1) st1
      in readCached SPEAKERS_FILE cacheRef timestampRef e st2)"

definition writeSpeakersCached :: "json \<Rightarrow> env \<Rightarrow> server \<Rightarrow> server" where
  "writeSpeakersCached data e st =
     (let st1 = st\<lparr>speakersCache := data\<rparr>;
          st2 = st1\<lparr>speakersTimestamp := now_write e\<rparr>
      in st2\<lparr>fs := (fs st2)(SPEAKERS_FILE := \<lparr>content = data, mtimeMs = mtime_write e\<rparr>)\<rparr>)"

definition readContentCached :: "env \<Rightarrow> server \<Rightarrow> json \<times> server" where
  "readContentCached e st =
     (let (cacheRef, st1) = new_cacheRef (contentCache st) st;
          (timestampRef, st2) = new_timestampRef (contentTimestamp st1) st1
      in readCached CONTENT_FILE cacheRef timestampRef e st2)"

definition writeContentCached :: "json \<Rightarrow> env \<Rightarrow> server \<Rightarrow> server" where
  "writeContentCached data e st =
     (let st1 = st\<lparr>contentCache := data\<rparr>;
          st2 = st1\<lparr>contentTimestamp := now_write e\<rparr>
      in st2\<lparr>fs := (fs st2)(CONTENT_FILE := \<lparr>content = data, mtimeMs = mtime_write e\<rparr>)\<rparr>)"

section \<open>Requests, sessions and responses\<close>

text \<open>
  What the server does with a request: a handler sends a JSON response with a status,
  or its promise rejects with nothing sent (the speakers and content handlers have no
  \<open>try\<close>/\<open>catch\<close>); when a middleware in front of the handlers fails, the error
  handler of express answers with the status of the error and an HTML page
  (\<open>ErrorPage\<close>). \<open>OutsideModel\<close> marks the inputs on which the server
  computes with values this theory does not represent (\<open>NaN\<close>, the conversion
  of a value that is not a number to a number, numbers beyond the safe integers).
\<close>

datatype response = Response nat json | ErrorPage nat | Threw | OutsideModel

text \<open>The outcome of a handler whose computation ended with \<open>err\<close>, where
  \<open>r\<close> is what the handler does with an exception.\<close>

definition caught :: "error \<Rightarrow> response \<Rightarrow> response" where
  "caught err r = (case err of TypeError \<Rightarrow> r | NotRepresented \<Rightarrow> OutsideModel)"

record session =
  isAuthenticated :: bool
  username :: "json option"

definition error_body :: "string \<Rightarrow> json" where
  "error_body msg = JObj (fmap_of_list [(''error'', JStr msg)])"

definition message_body :: "string \<Rightarrow> json" where
  "message_body msg = JObj (fmap_of_list [(''message'', JStr msg)])"

definition success_body :: "string \<Rightarrow> json" where
  "success_body msg = JObj (fmap_of_list [(''success'', JBool True), (''message'', JStr msg)])"

text \<open>An object literal sent with \<open>res.json\<close>: a property whose value is
  \<open>undefined\<close> is left out by \<open>JSON.stringify\<close>.\<close>

definition json_object :: "(string \<times> json option) list \<Rightarrow> json" where
  "json_object kvs =
     JObj (fmap_of_list (concat (map (\<lambda>(k, v). case v of None \<Rightarrow> [] | Some x \<Rightarrow> [(k, x)]) kvs)))"

definition requireAuth ::
  "session \<Rightarrow> (server \<Rightarrow> response \<times> server) \<Rightarrow> server \<Rightarrow> response \<times> server" where
  "requireAuth sess next st =
     (if isAuthenticated sess then next st
      else (Response 401 (error_body ''Unauthorized - Please login''), st))"

subsection \<open>Request bodies and \<open>express.json()\<close>\<close>

text \<open>
  The body of a request as it is sent, with the content type \<open>application/json\<close>:
  the number of bytes of its text, and the JSON document that the text denotes, every
  number in it being the integer written. (JSON text may hold any amount of white
  space, so a document does not determine the number of bytes.)

  \<open>app.use(express.json())\<close> runs in front of every route and of the session
  middleware. With its default options it refuses a body of more than \<open>100kb\<close>, that
  is 102400 bytes, with the error 413, and a text that is not an object or an array
  with the error 400 (option \<open>strict\<close>); both errors go to the error handler of
  express. Otherwise \<open>req.body\<close> is \<open>JSON.parse\<close> of the text: for a document whose
  numbers are all safe integers (\<open>safe_doc\<close>) that is the document itself, and a
  document with another number is not represented.
\<close>

record payload =
  bytes :: nat
  document :: json

fun objectOrArray :: "json \<Rightarrow> bool" where
  "objectOrArray (JObj m) = True"
| "objectOrArray (JArr xs) = True"
| "objectOrArray _ = False"

primrec safe_doc :: "json \<Rightarrow> bool" where
  "safe_doc JNull = True"
| "safe_doc (JBool b) = True"
| "safe_doc (JNum n) = isSafeInteger n"
| "safe_doc (JStr s) = True"
| "safe_doc (JArr xs) = list_all (\<lambda>b. b) (map safe_doc xs)"
| "safe_doc (JObj m) = fmpred (\<lambda>k b. b) (fmmap safe_doc m)"

definition express_json :: "payload \<Rightarrow> response + json" where
  "express_json p =
     (if bytes p > 100 * 1024 then Inl (ErrorPage 413)
      else if \<not> objectOrArray (document p) then Inl (ErrorPage 400)
      else if \<not> safe_doc (document p) then Inl OutsideModel
      else Inr (document p))"

section \<open>Speakers\<close>

text \<open>In the speakers routes \<open>body\<close> is \<open>req.body\<close>, as \<open>express.json()\<close> has
  set it.\<close>

text \<open>The callbacks \<open>sp => sp.id === parseInt(req.params.id)\<close> and
  \<open>s => s.id !== parseInt(req.params.id)\<close>.\<close>

definition id_is :: "string \<Rightarrow> json \<Rightarrow> error + bool" where
  "id_is param sp =
     (case get_prop sp ''id'' of
        Inl e \<Rightarrow> Inl e
      | Inr v \<Rightarrow> strict_eq_num v (parseInt param))"

definition id_is_not :: "string \<Rightarrow> json \<Rightarrow> error + bool" where
  "id_is_not param s =
     (case get_prop s ''id'' of
        Inl e \<Rightarrow> Inl e
      | Inr v \<Rightarrow>
          (case strict_eq_num v (parseInt param) of
             Inl e \<Rightarrow> Inl e
           | Inr b \<Rightarrow> Inr (\<not> b)))"

definition get_api_speakers :: "env \<Rightarrow> server \<Rightarrow> response \<times> server" where
  "get_api_speakers e st =
     (let (speakers, st1) = readSpeakersCached e st in (Response 200 speakers, st1))"

definition get_api_speakers_id :: "string \<Rightarrow> env \<Rightarrow> server \<Rightarrow> response \<times> server" where
  "get_api_speakers_id param e st =
     (let (speakers, st1) = readSpeakersCached e st in
      case speakers of
        JArr xs \<Rightarrow>
          (case find_js (id_is param) xs of
             Inl err \<Rightarrow> (caught err Threw, st1)
           | Inr None \<Rightarrow> (Response 404 (error_body ''Speaker not found''), st1)
           | Inr (Some s) \<Rightarrow>
               if \<not> truthy s then (Response 404 (error_body ''Speaker not found''), st1)
               else (Response 200 s, st1))
      | _ \<Rightarrow> (Threw, st1))"

text \<open>
  \<open>speakers.length ? Math.max(...speakers.map(s => s.id)) + 1 : 1\<close>. The maximum is
  taken here when every \<open>id\<close> is a number, and one is added to it when it is a safe
  integer; \<open>s.id\<close> throws on a \<open>null\<close> element.
\<close>

datatype id_result = NextId int | IdThrows | IdOutsideModel

fun num_of :: "json option \<Rightarrow> int option" where
  "num_of (Some (JNum n)) = Some n"
| "num_of _ = None"

definition next_id :: "json list \<Rightarrow> id_result" where
  "next_id speakers =
     (if length speakers \<noteq> 0 then
        (case map_js (\<lambda>s. get_prop s ''id'') speakers of
           Inl err \<Rightarrow> (case err of TypeError \<Rightarrow> IdThrows | NotRepresented \<Rightarrow> IdOutsideModel)
         | Inr ids \<Rightarrow>
             (case those (map num_of ids) of
                None \<Rightarrow> IdOutsideModel
              | Some [] \<Rightarrow> IdOutsideModel
              | Some (n # ns) \<Rightarrow>
                  if isSafeInteger (fold max ns n) then NextId (fold max ns n + 1)
                  else IdOutsideModel))
      else NextId 1)"

definition post_api_speakers_handler :: "json \<Rightarrow> env \<Rightarrow> server \<Rightarrow> response \<times> server" where
  "post_api_speakers_handler body e st =
     (let (speakers, st1) = readSpeakersCached e st in
      case speakers of
        JArr xs \<Rightarrow>
          (case next_id xs of
             IdThrows \<Rightarrow> (Threw, st1)
           | IdOutsideModel \<Rightarrow> (OutsideModel, st1)
           | NextId n \<Rightarrow>
               let newSpeaker = JObj (fmupd ''id'' (JNum n) fmempty ++\<^sub>f own_props body);
                   pushed = JArr (xs @ [newSpeaker]);
                   st2 = writeSpeakersCached pushed e st1
               in (Response 201 newSpeaker, st2))
      | _ \<Rightarrow> (Threw, st1))"

definition post_api_speakers :: "session \<Rightarrow> json \<Rightarrow> env \<Rightarrow> server \<Rightarrow> response \<times> server" where
  "post_api_speakers sess body e st = requireAuth sess (post_api_speakers_handler body e) st"

text \<open>
  \<open>PUT /api/speakers/:id\<close>. The record that \<open>findIndex\<close> has found has a number as
  its \<open>id\<close>, so \<open>speakers[index].id\<close> is that number: the other two branches of the
  inner case are never taken.
\<close>

definition put_api_speakers_id_handler ::
  "string \<Rightarrow> json \<Rightarrow> env \<Rightarrow> server \<Rightarrow> response \<times> server" where
  "put_api_speakers_id_handler param body e st =
     (let (speakers, st1) = readSpeakersCached e st in
      case speakers of
        JArr xs \<Rightarrow>
          (case findIndex_js (id_is param) xs of
             Inl err \<Rightarrow> (caught err Threw, st1)
           | Inr None \<Rightarrow> (Response 404 (error_body ''Speaker not found''), st1)
           | Inr (Some index) \<Rightarrow>
               (case get_prop (xs ! index) ''id'' of
                  Inr (Some idv) \<Rightarrow>
                    let updated =
                          JObj (fmupd ''id'' idv (own_props (xs ! index) ++\<^sub>f own_props body));
                        assigned = JArr (xs[index := updated]);
                        st2 = writeSpeakersCached assigned e st1
                    in (Response 200 updated, st2)
                | Inr None \<Rightarrow> (OutsideModel, st1)
                | Inl err \<Rightarrow> (caught err Threw, st1)))
      | _ \<Rightarrow> (Threw, st1))"

definition put_api_speakers_id ::
  "session \<Rightarrow> string \<Rightarrow> json \<Rightarrow> env \<Rightarrow> server \<Rightarrow> response \<times> server" where
  "put_api_speakers_id sess param body e st =
     requireAuth sess (put_api_speakers_id_handler param body e) st"

definition delete_api_speakers_id_handler ::
  "string \<Rightarrow> env \<Rightarrow> server \<Rightarrow> response \<times> server" where
  "delete_api_speakers_id_handler param e st =
     (let (speakers, st1) = readSpeakersCached e st in
      case speakers of
        JArr xs \<Rightarrow>
          (case filter_js (id_is_not param) xs of
             Inl err \<Rightarrow> (caught err Threw, st1)
           | Inr filtered \<Rightarrow>
               if length filtered = length xs then (Response 404 (error_body ''Not found''), st1)
               else (Response 200 (message_body ''Deleted''),
                     writeSpeakersCached (JArr filtered) e st1))
      | _ \<Rightarrow> (Threw, st1))"

definition delete_api_speakers_id ::
  "session \<Rightarrow> string \<Rightarrow> env \<Rightarrow> server \<Rightarrow> response \<times> server" where
  "delete_api_speakers_id sess param e st =
     requireAuth sess (delete_api_speakers_id_handler param e) st"

section \<open>Content\<close>

definition get_api_content :: "env \<Rightarrow> server \<Rightarrow> response \<times> server" where
  "get_api_content e st =
     (let (content, st1) = readContentCached e st in (Response 200 content, st1))"

definition put_api_content_handler :: "json \<Rightarrow> env \<Rightarrow> server \<Rightarrow> response \<times> server" where
  "put_api_content_handler body e st =
     (let updated = body;
          st1 = writeContentCached updated e st
      in (Response 200 (message_body ''Content updated successfully''), st1))"

text \<open>\<open>PUT /api/content\<close>, from the body as it is sent: \<open>express.json()\<close>, then
  \<open>requireAuth\<close>, then the handler.\<close>

definition put_api_content ::
  "session \<Rightarrow> payload \<Rightarrow> env \<Rightarrow> server \<Rightarrow> response \<times> server" where
  "put_api_content sess p e st =
     (case express_json p of
        Inl refusal \<Rightarrow> (refusal, st)
      | Inr body \<Rightarrow> requireAuth sess (put_api_content_handler body e) st)"

section \<open>Users and login\<close>

text \<open>
  The users file is read with \<open>fs.readFile\<close> and \<open>JSON.parse\<close> on every request, and
  every handler of this section catches what it throws and answers 500.
  \<open>bcrypt.compare\<close> belongs to a library: it is the parameter \<open>compare\<close>, applied to
  the submitted password and the stored \<open>passwordHash\<close> (either may be
  \<open>undefined\<close>, or a value that is not a string); its result \<open>None\<close> is a rejected
  promise, which the \<open>catch\<close> of the handler answers with 500.
\<close>

definition username_is :: "json option \<Rightarrow> json \<Rightarrow> error + bool" where
  "username_is name u =
     (case get_prop u ''username'' of
        Inl e \<Rightarrow> Inl e
      | Inr v \<Rightarrow> Inr (strict_eq v name))"

definition username_is_not :: "json option \<Rightarrow> json \<Rightarrow> error + bool" where
  "username_is_not name u =
     (case get_prop u ''username'' of
        Inl e \<Rightarrow> Inl e
      | Inr v \<Rightarrow> Inr (\<not> strict_eq v name))"

definition post_api_auth_login_handler ::
  "(json option \<Rightarrow> json option \<Rightarrow> bool option) \<Rightarrow> json \<Rightarrow> session \<Rightarrow> server
     \<Rightarrow> response \<times> session" where
  "post_api_auth_login_handler compare body sess st =
     (case (get_prop body ''username'', get_prop body ''password'') of
        (Inr uname, Inr password) \<Rightarrow>
          if \<not> truthy_opt uname \<or> \<not> truthy_opt password
          then (Response 400 (error_body ''Username and password required''), sess)
          else
            (case content (fs st USERS_FILE) of
               JArr users \<Rightarrow>
                 (case find_js (username_is uname) users of
                    Inl err \<Rightarrow> (caught err (Response 500 (error_body ''Login failed'')), sess)
                  | Inr None \<Rightarrow> (Response 401 (error_body ''Invalid credentials''), sess)
                  | Inr (Some user) \<Rightarrow>
                      if \<not> truthy user
                      then (Response 401 (error_body ''Invalid credentials''), sess)
                      else
                        (case get_prop user ''passwordHash'' of
                           Inl err \<Rightarrow>
                             (caught err (Response 500 (error_body ''Login failed'')), sess)
                         | Inr hash \<Rightarrow>
                             (case compare password hash of
                                None \<Rightarrow> (Response 500 (error_body ''Login failed''), sess)
                              | Some isValid \<Rightarrow>
                                  if \<not> isValid
                                  then (Response 401 (error_body ''Invalid credentials''), sess)
                                  else
                                    (Response 200
                                       (json_object
                                          [(''success'', Some (JBool True)),
                                           (''message'', Some (JStr ''Login successful'')),
                                           (''username'', uname)]),
                                     sess\<lparr>isAuthenticated := True, username := uname\<rparr>))))
             | _ \<Rightarrow> (Response 500 (error_body ''Login failed''), sess))
      | _ \<Rightarrow> (Response 500 (error_body ''Login failed''), sess))"

text \<open>\<open>POST /api/auth/login\<close>, from the body as it is sent.\<close>

definition post_api_auth_login ::
  "(json option \<Rightarrow> json option \<Rightarrow> bool option) \<Rightarrow> payload \<Rightarrow> session \<Rightarrow> server
     \<Rightarrow> response \<times> session" where
  "post_api_auth_login compare p sess st =
     (case express_json p of
        Inl refusal \<Rightarrow> (refusal, sess)
      | Inr body \<Rightarrow> post_api_auth_login_handler compare body sess st)"

definition sanitize :: "json \<Rightarrow> error + json" where
  "sanitize u =
     (case (get_prop u ''username'', get_prop u ''createdAt'',
            get_prop u ''passwordChangedAt'', get_prop u ''lastLogin'') of
        (Inr a, Inr b, Inr c, Inr d) \<Rightarrow>
          Inr (json_object
                 [(''username'', a), (''createdAt'', b),
                  (''passwordChangedAt'', c), (''lastLogin'', d)])
      | _ \<Rightarrow> Inl TypeError)"

definition get_api_users_handler :: "server \<Rightarrow> response \<times> server" where
  "get_api_users_handler st =
     (case content (fs st USERS_FILE) of
        JArr users \<Rightarrow>
          (case map_js sanitize users of
             Inl err \<Rightarrow> (caught err (Response 500 (error_body ''Failed to get users'')), st)
           | Inr sanitizedUsers \<Rightarrow> (Response 200 (JArr sanitizedUsers), st))
      | _ \<Rightarrow> (Response 500 (error_body ''Failed to get users''), st))"

definition get_api_users :: "session \<Rightarrow> server \<Rightarrow> response \<times> server" where
  "get_api_users sess st = requireAuth sess get_api_users_handler st"

text \<open>
  \<open>DELETE /api/users/:username\<close>. When the users file holds something that is not an
  array, \<open>users.length <= 1\<close> is evaluated on it before \<open>users.filter\<close> throws.
\<close>

definition delete_api_users_handler :: "session \<Rightarrow> string \<Rightarrow> env \<Rightarrow> server \<Rightarrow> response \<times> server" where
  "delete_api_users_handler sess param e st =
     (if strict_eq (Some (JStr param)) (username sess)
      then (Response 400 (error_body ''Cannot delete your own account''), st)
      else
        (case content (fs st USERS_FILE) of
           JArr users \<Rightarrow>
             if length users \<le> 1
             then (Response 400 (error_body ''Cannot delete the last user''), st)
             else
               (case filter_js (username_is_not (Some (JStr param))) users of
                  Inl err \<Rightarrow> (caught err (Response 500 (error_body ''Failed to delete user'')), st)
                | Inr filteredUsers \<Rightarrow>
                    if length filteredUsers = length users
                    then (Response 404 (error_body ''User not found''), st)
                    else
                      (Response 200 (success_body ''User deleted successfully''),
                       st\<lparr>fs := (fs st)(USERS_FILE :=
                              \<lparr>content = JArr filteredUsers, mtimeMs = mtime_write e\<rparr>)\<rparr>))
         | JStr s \<Rightarrow>
             if length s \<le> 1
             then (Response 400 (error_body ''Cannot delete the last user''), st)
             else (Response 500 (error_body ''Failed to delete user''), st)
         | JObj m \<Rightarrow>
             (case fmlookup m ''length'' of
                None \<Rightarrow> (Response 500 (error_body ''Failed to delete user''), st)
              | Some (JNum n) \<Rightarrow>
                  if n \<le> 1
                  then (Response 400 (error_body ''Cannot delete the last user''), st)
                  else (Response 500 (error_body ''Failed to delete user''), st)
              | Some other \<Rightarrow> (OutsideModel, st))
         | _ \<Rightarrow> (Response 500 (error_body ''Failed to delete user''), st)))"

definition delete_api_users :: "session \<Rightarrow> string \<Rightarrow> env \<Rightarrow> server \<Rightarrow> response \<times> server" where
  "delete_api_users sess param e st =
     requireAuth sess (delete_api_users_handler sess param e) st"

section \<open>Sequences of requests\<close>

datatype speaker_op = Create json | Delete string

fun apply_op :: "session \<Rightarrow> speaker_op \<Rightarrow> env \<Rightarrow> server \<Rightarrow> response \<times> server" where
  "apply_op sess (Create body) e st = post_api_speakers sess body e st"
| "apply_op sess (Delete param) e st = delete_api_speakers_id sess param e st"

fun run_ops :: "session \<Rightarrow> (speaker_op \<times> env) list \<Rightarrow> server \<Rightarrow> response list \<times> server" where
  "run_ops sess [] st = ([], st)"
| "run_ops sess ((op, e) # ops) st =
     (let (r, st1) = apply_op sess op e st;
          (rs, st2) = run_ops sess ops st1
      in (r # rs, st2))"

datatype read_op = ReadSpeakers | ReadContent

fun read_path :: "read_op \<Rightarrow> path" where
  "read_path ReadSpeakers = SPEAKERS_FILE"
| "read_path ReadContent = CONTENT_FILE"

fun cached_read :: "read_op \<Rightarrow> env \<Rightarrow> server \<Rightarrow> json \<times> server" where
  "cached_read ReadSpeakers e st = readSpeakersCached e st"
| "cached_read ReadContent e st = readContentCached e st"

fun run_reads :: "(read_op \<times> env) list \<Rightarrow> server \<Rightarrow> json list \<times> server" where
  "run_reads [] st = ([], st)"
| "run_reads ((r, e) # rs) st =
     (let (v, st1) = cached_read r e st;
          (vs, st2) = run_reads rs st1
      in (v # vs, st2))"

section \<open>The data model of the speakers collection\<close>

text \<open>
  A speaker is an object with an integer \<open>id\<close>; the collection is an array of
  speakers with pairwise different ids. \<open>speakers_ok k\<close> holds of a server whose
  speakers file is such a collection, with ids that are safe integers and stay so
  when \<open>k\<close> is added, and whose cache variable, once a write has filled it, holds
  the same document as the file. A record is safe when it is not \<open>null\<close> and its
  \<open>id\<close>, if it is an integer, is a safe one.
\<close>

fun speaker_id :: "json \<Rightarrow> int option" where
  "speaker_id (JObj m) = (case fmlookup m ''id'' of Some (JNum n) \<Rightarrow> Some n | _ \<Rightarrow> None)"
| "speaker_id _ = None"

fun ids_of :: "json \<Rightarrow> int list option" where
  "ids_of (JArr xs) = those (map speaker_id xs)"
| "ids_of _ = None"

definition speakers_ok :: "nat \<Rightarrow> server \<Rightarrow> bool" where
  "speakers_ok k st =
     ((case ids_of (content (fs st SPEAKERS_FILE)) of
         None \<Rightarrow> False
       | Some ids \<Rightarrow> distinct ids \<and> (\<forall>i \<in> set ids. - (2 ^ 53) < i \<and> i + int k < 2 ^ 53))
      \<and> int k < 2 ^ 53
      \<and> (truthy (speakersCache st) \<longrightarrow> speakersCache st = content (fs st SPEAKERS_FILE)))"

definition safe_record :: "json \<Rightarrow> bool" where
  "safe_record s =
     (s \<noteq> JNull \<and> (case speaker_id s of None \<Rightarrow> True | Some n \<Rightarrow> isSafeInteger n))"

section \<open>The process after start-up, and sample data\<close>

text \<open>
  The module-level variables as initialised and the files as \<open>ensureDataFiles\<close>
  creates them in an empty data directory (the hash and the dates are sample values).
\<close>

definition admin_user :: json where
  "admin_user =
     JObj (fmap_of_list
       [(''username'', JStr ''admin''),
        (''passwordHash'', JStr ''$2b$10$sample.hash.of.changeme123''),
        (''createdAt'', JStr ''2024-01-01T00:00:00.000Z'')])"

definition startup_files :: "path \<Rightarrow> data_file" where
  "startup_files p =
     (case p of
        SPEAKERS_FILE \<Rightarrow> \<lparr>content = JArr [], mtimeMs = 1000\<rparr>
      | CONTENT_FILE \<Rightarrow>
          \<lparr>content = JObj (fmap_of_list [(''en'', JObj fmempty), (''fr'', JObj fmempty)]),
           mtimeMs = 1000\<rparr>
      | USERS_FILE \<Rightarrow> \<lparr>content = JArr [admin_user], mtimeMs = 1000\<rparr>)"

definition startup :: server where
  "startup =
     \<lparr>speakersCache = JNull, speakersTimestamp = 0,
      contentCache = JNull, contentTimestamp = 0,
      fs = startup_files, console = [],
      cacheRefs = (\<lambda>a. JNull), timestampRefs = (\<lambda>a. 0), allocated = 0\<rparr>"

definition at_time :: "time \<Rightarrow> env" where
  "at_time t = \<lparr>now_check = t, now_refresh = t, now_write = t, mtime_write = t\<rparr>"

definition admin_session :: session where
  "admin_session = \<lparr>isAuthenticated = True, username = Some (JStr ''admin'')\<rparr>"

definition speaker :: "int \<Rightarrow> string \<Rightarrow> json" where
  "speaker n name = JObj (fmap_of_list [(''id'', JNum n), (''name'', JStr name)])"

definition with_speakers :: "json list \<Rightarrow> server \<Rightarrow> server" where
  "with_speakers xs st =
     st\<lparr>fs := (fs st)(SPEAKERS_FILE := \<lparr>content = JArr xs, mtimeMs = 1000\<rparr>)\<rparr>"

definition named :: "string \<Rightarrow> json" where
  "named name = JObj (fmap_of_list [(''name'', JStr name)])"

definition sample_ops :: "(speaker_op \<times> env) list" where
  "sample_ops =
     [(Create (named ''Ada''), at_time 2000),
      (Delete ''1'', at_time 2001),
      (Create (named ''Bob''), at_time 2002)]"

definition sample_reads :: "(read_op \<times> env) list" where
  "sample_reads =
     [(ReadSpeakers, at_time 2000), (ReadContent, at_time 2000), (ReadSpeakers, at_time 2001)]"

definition write_env :: env where
  "write_env = \<lparr>now_check = 100, now_refresh = 100, now_write = 100, mtime_write = 101\<rparr>"

definition bob_user :: json where
  "bob_user =
     JObj (fmap_of_list
       [(''username'', JStr ''bob''),
        (''passwordHash'', JStr ''$2b$10$sample.hash.of.bobs.password''),
        (''createdAt'', JStr ''2024-02-01T00:00:00.000Z''),
        (''createdBy'', JStr ''admin'')])"

definition with_users :: "json list \<Rightarrow> server \<Rightarrow> server" where
  "with_users us st =
     st\<lparr>fs := (fs st)(USERS_FILE := \<lparr>content = JArr us, mtimeMs = 1000\<rparr>)\<rparr>"

definition login_body :: "string \<Rightarrow> string \<Rightarrow> json" where
  "login_body name pw = JObj (fmap_of_list [(''username'', JStr name), (''password'', JStr pw)])"

text \<open>
  A sample \<open>bcrypt.compare\<close>: it rejects when the data or the hash is not a string,
  as \<open>bcrypt.compare\<close> does, and the admin's password matches the admin's hash.
\<close>

definition sample_compare :: "json option \<Rightarrow> json option \<Rightarrow> bool option" where
  "sample_compare pw hash =
     (case pw of
        Some (JStr p) \<Rightarrow>
          (case hash of
             Some (JStr h) \<Rightarrow>
               Some (p = ''changeme123'' \<and> h = ''$2b$10$sample.hash.of.changeme123'')
           | _ \<Rightarrow> None)
      | _ \<Rightarrow> None)"

text \<open>The login request \<open>{"username":name,"password":5}\<close>, sent without white
  space.\<close>

definition numeric_password_login :: "string \<Rightarrow> payload" where
  "numeric_password_login name =
     \<lparr>bytes = 28 + length name,
      document = JObj (fmap_of_list [(''username'', JStr name), (''password'', JNum 5)])\<rparr>"

text \<open>
  A content document, the request that sends it without white space (80 bytes), the
  request that sends it with white space up to 200000 bytes, and a request whose
  text is the JSON string \<open>"hello"\<close>.
\<close>

definition sample_content :: json where
  "sample_content =
     JObj (fmap_of_list
       [(''en'', JObj (fmap_of_list [(''title'', JStr ''Facets''), (''year'', JNum 2024)])),
        (''fr'', JObj (fmap_of_list
           [(''title'', JStr ''Facettes''), (''tags'', JArr [JStr ''a'', JStr ''b''])]))])"

definition sample_content_request :: payload where
  "sample_content_request = \<lparr>bytes = 80, document = sample_content\<rparr>"

definition padded_content_request :: payload where
  "padded_content_request = \<lparr>bytes = 200000, document = sample_content\<rparr>"

definition string_request :: payload where
  "string_request = \<lparr>bytes = 7, document = JStr ''hello''\<rparr>"

text \<open>A collection with the ids 1 and 5, and a sequence that deletes the record with
  the greatest id and creates two records.\<close>

definition two_speakers :: server where
  "two_speakers = with_speakers [speaker 1 ''Ada'', speaker 5 ''Eve''] startup"

definition busy_ops :: "(speaker_op \<times> env) list" where
  "busy_ops =
     [(Delete ''5'', at_time 2000),
      (Create (named ''Bob''), at_time 2001),
      (Create (named ''Cy''), at_time 2002)]"

definition anonymous :: session where
  "anonymous = \<lparr>isAuthenticated = False, username = None\<rparr>"

section \<open>Notions used to state the properties\<close>

text \<open>The four module-level cache variables.\<close>

definition cache_vars :: "server \<Rightarrow> json \<times> time \<times> json \<times> time" where
  "cache_vars st = (speakersCache st, speakersTimestamp st, contentCache st, contentTimestamp st)"

text \<open>The staleness test of \<open>readCached\<close>, on a cached value \<open>v\<close> refreshed at \<open>t\<close>.\<close>

definition stale :: "json \<Rightarrow> time \<Rightarrow> data_file \<Rightarrow> env \<Rightarrow> bool" where
  "stale v t f e = (\<not> truthy v \<or> mtimeMs f > t \<or> now_check e - t > CACHE_TTL)"

text \<open>A create request whose body has no \<open>id\<close> property of its own.\<close>

definition body_without_id :: "speaker_op \<Rightarrow> bool" where
  "body_without_id op =
     (case op of Create body \<Rightarrow> fmlookup (own_props body) ''id'' = None | Delete param \<Rightarrow> True)"

text \<open>The id the assignment rule gives on a collection with the ids \<open>ids\<close>.\<close>

definition max_plus_one :: "int list \<Rightarrow> int" where
  "max_plus_one ids = (if ids = [] then 1 else Max (set ids) + 1)"

text \<open>The record \<open>s\<close> carries the id that the path parameter denotes.\<close>

definition has_id :: "string \<Rightarrow> json \<Rightarrow> bool" where
  "has_id param s = (readInteger param \<noteq> None \<and> speaker_id s = readInteger param)"

text \<open>The user record \<open>u\<close> has the user name \<open>name\<close>.\<close>

definition named_user :: "string \<Rightarrow> json \<Rightarrow> bool" where
  "named_user name u = (get_prop u ''username'' = Inr (Some (JStr name)))"

text \<open>The shallow merge of a body into a record, at the property \<open>k\<close>.\<close>

definition merged_field :: "json \<Rightarrow> json \<Rightarrow> string \<Rightarrow> json option" where
  "merged_field old body k =
     (case fmlookup (own_props body) k of
        Some v \<Rightarrow> Some v
      | None \<Rightarrow> fmlookup (own_props old) k)"

section \<open>Cached reads and writes\<close>

lemmas read_defs = readSpeakersCached_def readContentCached_def readCached_def
  new_cacheRef_def new_timestampRef_def

lemma readSpeakersCached_frame:
  "speakersCache (snd (readSpeakersCached e st)) = speakersCache st"
  "speakersTimestamp (snd (readSpeakersCached e st)) = speakersTimestamp st"
  "contentCache (snd (readSpeakersCached e st)) = contentCache st"
  "contentTimestamp (snd (readSpeakersCached e st)) = contentTimestamp st"
  "fs (snd (readSpeakersCached e st)) = fs st"
  by (simp_all add: read_defs Let_def)

lemma readContentCached_frame:
  "speakersCache (snd (readContentCached e st)) = speakersCache st"
  "speakersTimestamp (snd (readContentCached e st)) = speakersTimestamp st"
  "contentCache (snd (readContentCached e st)) = contentCache st"
  "contentTimestamp (snd (readContentCached e st)) = contentTimestamp st"
  "fs (snd (readContentCached e st)) = fs st"
  by (simp_all add: read_defs Let_def)

lemma readSpeakersCached_value:
  "fst (readSpeakersCached e st) =
     (if stale (speakersCache st) (speakersTimestamp st) (fs st SPEAKERS_FILE) e
      then content (fs st SPEAKERS_FILE) else speakersCache st)"
  by (simp add: read_defs Let_def stale_def)

lemma readContentCached_value:
  "fst (readContentCached e st) =
     (if stale (contentCache st) (contentTimestamp st) (fs st CONTENT_FILE) e
      then content (fs st CONTENT_FILE) else contentCache st)"
  by (simp add: read_defs Let_def stale_def)

lemma readSpeakersCached_console:
  "console (snd (readSpeakersCached e st)) =
     (if stale (speakersCache st) (speakersTimestamp st) (fs st SPEAKERS_FILE) e
      then console st @ [CacheRefreshed SPEAKERS_FILE] else console st)"
  by (simp add: read_defs Let_def stale_def)

lemma readContentCached_console:
  "console (snd (readContentCached e st)) =
     (if stale (contentCache st) (contentTimestamp st) (fs st CONTENT_FILE) e
      then console st @ [CacheRefreshed CONTENT_FILE] else console st)"
  by (simp add: read_defs Let_def stale_def)

lemma readSpeakersCached_wrappers:
  "stale (speakersCache st) (speakersTimestamp st) (fs st SPEAKERS_FILE) e \<Longrightarrow>
   cacheRefs (snd (readSpeakersCached e st)) (allocated st) = content (fs st SPEAKERS_FILE)
   \<and> timestampRefs (snd (readSpeakersCached e st)) (Suc (allocated st)) = now_refresh e"
  by (simp add: read_defs Let_def stale_def)

lemma cached_read_frame:
  "cache_vars (snd (cached_read r e st)) = cache_vars st"
  "fs (snd (cached_read r e st)) = fs st"
  by (cases r; simp add: cache_vars_def readSpeakersCached_frame readContentCached_frame)+

lemma run_reads_frame:
  "cache_vars (snd (run_reads rs st)) = cache_vars st \<and> fs (snd (run_reads rs st)) = fs st"
proof (induction rs arbitrary: st)
  case Nil
  then show ?case by simp
next
  case (Cons a rs)
  obtain r e where a: "a = (r, e)" by (cases a)
  show ?case
    using Cons.IH [of "snd (cached_read r e st)"]
    by (simp add: a split_beta Let_def cached_read_frame)
qed

lemma run_reads_before_write:
  "speakersCache st = JNull \<Longrightarrow> contentCache st = JNull \<Longrightarrow>
   fst (run_reads rs st) = map (\<lambda>(r, e). content (fs st (read_path r))) rs
   \<and> console (snd (run_reads rs st)) = console st @ map (\<lambda>(r, e). CacheRefreshed (read_path r)) rs"
proof (induction rs arbitrary: st)
  case Nil
  then show ?case by simp
next
  case (Cons a rs)
  obtain r e where a: "a = (r, e)" by (cases a)
  let ?st1 = "snd (cached_read r e st)"
  have cv: "cache_vars ?st1 = cache_vars st" and f: "fs ?st1 = fs st"
    by (rule cached_read_frame)+
  from cv Cons.prems have n: "speakersCache ?st1 = JNull" "contentCache ?st1 = JNull"
    by (simp_all add: cache_vars_def)
  have v: "fst (cached_read r e st) = content (fs st (read_path r))"
    using Cons.prems by (cases r) (simp_all add: readSpeakersCached_value readContentCached_value stale_def)
  have c: "console ?st1 = console st @ [CacheRefreshed (read_path r)]"
    using Cons.prems by (cases r) (simp_all add: readSpeakersCached_console readContentCached_console stale_def)
  show ?case
    using Cons.IH [OF n] by (simp add: a split_beta Let_def v c f)
qed

text \<open>
  C9. A cached read leaves the four module-level cache variables and the files as
  they were: \<open>readSpeakersCached\<close> and \<open>readContentCached\<close> hand fresh wrapper
  objects to \<open>readCached\<close>, and when the document is stale the refresh lands in
  those wrappers (the cells at \<open>allocated st\<close> and \<open>Suc (allocated st)\<close>), not in
  the variables. The same
  holds after any sequence of cached reads. The two writes are what sets the
  variables. As long as both cache variables still hold their initial \<open>null\<close>,
  every cached read in a sequence returns the document of the file and logs a
  refresh: it has read and parsed the file again.
\<close>

theorem cached_reads_never_store_back:
  "cache_vars (snd (readSpeakersCached e st)) = cache_vars st
   \<and> cache_vars (snd (readContentCached e st)) = cache_vars st
   \<and> fs (snd (readSpeakersCached e st)) = fs st
   \<and> fs (snd (readContentCached e st)) = fs st
   \<and> (stale (speakersCache st) (speakersTimestamp st) (fs st SPEAKERS_FILE) e \<longrightarrow>
        fst (readSpeakersCached e st) = content (fs st SPEAKERS_FILE)
        \<and> cacheRefs (snd (readSpeakersCached e st)) (allocated st) = content (fs st SPEAKERS_FILE)
        \<and> timestampRefs (snd (readSpeakersCached e st)) (Suc (allocated st)) = now_refresh e)
   \<and> cache_vars (snd (run_reads rs st)) = cache_vars st
   \<and> cache_vars (writeSpeakersCached d e st)
        = (d, now_write e, contentCache st, contentTimestamp st)
   \<and> cache_vars (writeContentCached d e st)
        = (speakersCache st, speakersTimestamp st, d, now_write e)
   \<and> (speakersCache st = JNull \<and> contentCache st = JNull \<longrightarrow>
        fst (run_reads rs st) = map (\<lambda>(r, e). content (fs st (read_path r))) rs
        \<and> console (snd (run_reads rs st))
            = console st @ map (\<lambda>(r, e). CacheRefreshed (read_path r)) rs)"
proof -
  have w: "stale (speakersCache st) (speakersTimestamp st) (fs st SPEAKERS_FILE) e \<longrightarrow>
        fst (readSpeakersCached e st) = content (fs st SPEAKERS_FILE)
        \<and> cacheRefs (snd (readSpeakersCached e st)) (allocated st) = content (fs st SPEAKERS_FILE)
        \<and> timestampRefs (snd (readSpeakersCached e st)) (Suc (allocated st)) = now_refresh e"
    using readSpeakersCached_wrappers [of st e] by (simp add: readSpeakersCached_value)
  have ws: "cache_vars (writeSpeakersCached d e st)
        = (d, now_write e, contentCache st, contentTimestamp st)"
    by (simp add: cache_vars_def writeSpeakersCached_def Let_def)
  have wc: "cache_vars (writeContentCached d e st)
        = (speakersCache st, speakersTimestamp st, d, now_write e)"
    by (simp add: cache_vars_def writeContentCached_def Let_def)
  have rs: "cache_vars (snd (readSpeakersCached e st)) = cache_vars st"
    and rc: "cache_vars (snd (readContentCached e st)) = cache_vars st"
    by (simp_all add: cache_vars_def readSpeakersCached_frame readContentCached_frame)
  from rs rc w ws wc show ?thesis
    using run_reads_frame [of rs st] run_reads_before_write [of st rs]
    by (simp add: readSpeakersCached_frame readContentCached_frame)
qed

theorem cached_reads_never_store_back_witness:
  "speakersCache startup = JNull \<and> contentCache startup = JNull
   \<and> fst (run_reads sample_reads startup)
       = [JArr [], JObj (fmap_of_list [(''en'', JObj fmempty), (''fr'', JObj fmempty)]), JArr []]
   \<and> console (snd (run_reads sample_reads startup))
       = [CacheRefreshed SPEAKERS_FILE, CacheRefreshed CONTENT_FILE, CacheRefreshed SPEAKERS_FILE]
   \<and> cache_vars (snd (run_reads sample_reads startup)) = (JNull, 0, JNull, 0)
   \<and> timestampRefs (snd (readSpeakersCached (at_time 2000) startup)) (Suc (allocated startup))
       = 2000"
  using cached_reads_never_store_back [of "at_time 2000" startup sample_reads JNull]
  by (simp add: startup_def startup_files_def sample_reads_def cache_vars_def stale_def
      at_time_def)

text \<open>
  C3, evaluated where the code departs from it. After a write at 100 that the file
  system stamps 101, a cached read at 300 finds the file newer than the time stamp,
  reloads and logs the refresh; the time stamp variable still holds 100 afterwards,
  not 300. The file is older than 300 and less than the TTL has passed at 301, yet
  the read at 301 reloads again.
\<close>

theorem read_leaves_lastRefreshed:
  "(let st = writeSpeakersCached (JArr [speaker 1 ''Ada'']) write_env startup;
        (v1, st1) = readSpeakersCached (at_time 300) st;
        (v2, st2) = readSpeakersCached (at_time 301) st1
    in mtimeMs (fs st SPEAKERS_FILE) > speakersTimestamp st
       \<and> v1 = JArr [speaker 1 ''Ada'']
       \<and> console st1 = [CacheRefreshed SPEAKERS_FILE]
       \<and> now_refresh (at_time 300) = 300
       \<and> speakersTimestamp st1 = 100
       \<and> mtimeMs (fs st1 SPEAKERS_FILE) < 300
       \<and> now_check (at_time 301) - 300 < CACHE_TTL
       \<and> console st2 = [CacheRefreshed SPEAKERS_FILE, CacheRefreshed SPEAKERS_FILE])"
  by code_simp

lemma safe_doc_elements:
  "safe_doc (JArr xs) \<longleftrightarrow> (\<forall>x \<in> set xs. safe_doc x)"
  "safe_doc (JObj m) \<longleftrightarrow> (\<forall>k v. fmlookup m k = Some v \<longrightarrow> safe_doc v)"
  by (auto simp: list_all_iff fmpred_iff)

lemma put_api_content_accepted:
  assumes "isAuthenticated sess" and "express_json p = Inr doc"
  shows "put_api_content sess p e st
      = (Response 200 (message_body ''Content updated successfully''), writeContentCached doc e st)"
  using assms by (simp add: put_api_content_def requireAuth_def put_api_content_handler_def)

lemma get_after_writeContentCached:
  "fst (get_api_content e2 (writeContentCached doc e1 st)) = Response 200 doc"
  by (simp add: get_api_content_def readContentCached_value writeContentCached_def Let_def
      split_beta)

text \<open>
  C4 (as amended). Take an authenticated \<open>PUT /api/content\<close>. When the body is at
  most 102400 bytes long and its document \<open>doc\<close> is an object or an array whose
  numbers are all safe integers, the request is answered 200 and leaves \<open>doc\<close> in
  the file and in the cache variable, and the \<open>GET /api/content\<close> that follows
  answers 200 with exactly \<open>doc\<close>, whatever the content was before and whatever
  the clock and the file time are. A body of more than 102400 bytes is answered with
  the error 413, and a shorter one whose document is not an object or an array with
  the error 400; neither reaches the handler, and the server is left as it was.
  What the server does with a document that holds a number that is no safe integer
  is not represented.
\<close>

theorem content_round_trip:
  assumes "isAuthenticated sess"
  shows "(bytes p \<le> 100 * 1024 \<and> objectOrArray (document p) \<and> safe_doc (document p) \<longrightarrow>
            fst (put_api_content sess p e1 st)
              = Response 200 (message_body ''Content updated successfully'')
          \<and> content (fs (snd (put_api_content sess p e1 st)) CONTENT_FILE) = document p
          \<and> contentCache (snd (put_api_content sess p e1 st)) = document p
          \<and> fst (get_api_content e2 (snd (put_api_content sess p e1 st)))
              = Response 200 (document p))
       \<and> (bytes p > 100 * 1024 \<longrightarrow> put_api_content sess p e1 st = (ErrorPage 413, st))
       \<and> (bytes p \<le> 100 * 1024 \<and> \<not> objectOrArray (document p) \<longrightarrow>
            put_api_content sess p e1 st = (ErrorPage 400, st))
       \<and> (bytes p \<le> 100 * 1024 \<and> objectOrArray (document p) \<and> \<not> safe_doc (document p) \<longrightarrow>
            put_api_content sess p e1 st = (OutsideModel, st))"
proof (intro conjI impI)
  assume a: "bytes p \<le> 100 * 1024 \<and> objectOrArray (document p) \<and> safe_doc (document p)"
  then have "express_json p = Inr (document p)"
    by (simp add: express_json_def)
  note put = put_api_content_accepted [OF assms this, of e1 st]
  show "fst (put_api_content sess p e1 st)
      = Response 200 (message_body ''Content updated successfully'')"
    by (simp add: put)
  show "content (fs (snd (put_api_content sess p e1 st)) CONTENT_FILE) = document p"
    by (simp add: put writeContentCached_def Let_def)
  show "contentCache (snd (put_api_content sess p e1 st)) = document p"
    by (simp add: put writeContentCached_def Let_def)
  show "fst (get_api_content e2 (snd (put_api_content sess p e1 st))) = Response 200 (document p)"
    by (simp add: put get_after_writeContentCached)
next
  assume "bytes p > 100 * 1024"
  then show "put_api_content sess p e1 st = (ErrorPage 413, st)"
    by (simp add: put_api_content_def express_json_def)
next
  assume "bytes p \<le> 100 * 1024 \<and> \<not> objectOrArray (document p)"
  then show "put_api_content sess p e1 st = (ErrorPage 400, st)"
    by (simp add: put_api_content_def express_json_def)
next
  assume "bytes p \<le> 100 * 1024 \<and> objectOrArray (document p) \<and> \<not> safe_doc (document p)"
  then show "put_api_content sess p e1 st = (OutsideModel, st)"
    by (simp add: put_api_content_def express_json_def)
qed

theorem content_round_trip_witness:
  "isAuthenticated admin_session
   \<and> bytes sample_content_request \<le> 100 * 1024
   \<and> objectOrArray (document sample_content_request)
   \<and> safe_doc (document sample_content_request)
   \<and> fst (put_api_content admin_session sample_content_request (at_time 2000) startup)
       = Response 200 (message_body ''Content updated successfully'')
   \<and> fst (get_api_content (at_time 3000)
        (snd (put_api_content admin_session sample_content_request (at_time 2000) startup)))
       = Response 200 sample_content
   \<and> put_api_content admin_session padded_content_request (at_time 2000) startup
       = (ErrorPage 413, startup)"
proof -
  have h1: "isAuthenticated admin_session"
    by (simp add: admin_session_def)
  have h2: "bytes sample_content_request \<le> 100 * 1024"
    "objectOrArray (document sample_content_request)"
    by (simp_all add: sample_content_request_def sample_content_def)
  have h3: "safe_doc (document sample_content_request)"
    by code_simp
  have h4: "bytes padded_content_request > 100 * 1024"
    by (simp add: padded_content_request_def)
  have d: "document sample_content_request = sample_content"
    by (simp add: sample_content_request_def)
  show ?thesis
    using content_round_trip [OF h1, of sample_content_request "at_time 2000" startup
        "at_time 3000"]
      content_round_trip [OF h1, of padded_content_request "at_time 2000" startup] h1 h2 h3 h4
    by (simp add: d)
qed

text \<open>
  C4 as stated fails on a document that \<open>express.json()\<close> refuses. The sample
  document sent in 200000 bytes is answered with the error 413, the JSON string
  \<open>"hello"\<close> with the error 400, and in both cases the \<open>GET /api/content\<close> that
  follows answers with the content of before, not with the document sent.
\<close>

theorem refused_body_is_not_stored:
  "put_api_content admin_session padded_content_request (at_time 2000) startup
     = (ErrorPage 413, startup)
   \<and> put_api_content admin_session string_request (at_time 2000) startup
     = (ErrorPage 400, startup)
   \<and> fst (get_api_content (at_time 3000) startup)
       = Response 200 (JObj (fmap_of_list [(''en'', JObj fmempty), (''fr'', JObj fmempty)]))
   \<and> document padded_content_request
       \<noteq> JObj (fmap_of_list [(''en'', JObj fmempty), (''fr'', JObj fmempty)])
   \<and> document string_request
       \<noteq> JObj (fmap_of_list [(''en'', JObj fmempty), (''fr'', JObj fmempty)])"
proof -
  let ?old = "JObj (fmap_of_list [(''en'', JObj fmempty), (''fr'', JObj fmempty)])"
  have "put_api_content admin_session padded_content_request (at_time 2000) startup
      = (ErrorPage 413, startup)"
    by (simp add: put_api_content_def express_json_def padded_content_request_def)
  moreover have "put_api_content admin_session string_request (at_time 2000) startup
      = (ErrorPage 400, startup)"
    by (simp add: put_api_content_def express_json_def string_request_def)
  moreover have "fst (get_api_content (at_time 3000) startup) = Response 200 ?old"
    by (simp add: get_api_content_def readContentCached_value split_beta stale_def startup_def
        startup_files_def)
  moreover have "(case document padded_content_request of
        JObj m \<Rightarrow> (case fmlookup m ''en'' of Some (JObj m') \<Rightarrow> fmlookup m' ''title'' | _ \<Rightarrow> None)
      | _ \<Rightarrow> None) = Some (JStr ''Facets'')"
    by (simp add: padded_content_request_def sample_content_def)
  then have "document padded_content_request \<noteq> ?old"
    by auto
  moreover have "document string_request \<noteq> ?old"
    by (simp add: string_request_def)
  ultimately show ?thesis
    by (intro conjI)
qed

section \<open>Array methods and the id rule\<close>

lemma those_map_Some_iff:
  "those (map f xs) = Some ys \<longleftrightarrow> map f xs = map Some ys"
proof (induction xs arbitrary: ys)
  case Nil
  then show ?case by auto
next
  case (Cons x xs)
  show ?case
  proof (cases "f x")
    case None
    then show ?thesis by (cases ys) auto
  next
    case (Some y)
    then show ?thesis
      using Cons.IH by (cases ys) (auto split: option.splits)
  qed
qed

lemma filter_js_total:
  "\<forall>x \<in> set xs. p x = Inr (q x) \<Longrightarrow> filter_js p xs = Inr (filter q xs)"
  by (induction xs) auto

lemma find_js_total:
  "\<forall>x \<in> set xs. p x = Inr (q x) \<Longrightarrow> find_js p xs = Inr (List.find q xs)"
  by (induction xs) auto

lemma map_js_total:
  "\<forall>x \<in> set xs. f x = Inr (g x) \<Longrightarrow> map_js f xs = Inr (map g xs)"
  by (induction xs) auto

lemma findIndex_js_none:
  "\<forall>x \<in> set xs. p x = Inr False \<Longrightarrow> findIndex_js p xs = Inr None"
  by (induction xs) auto

lemma findIndex_js_first:
  "i < length xs \<Longrightarrow> p (xs ! i) = Inr True \<Longrightarrow> \<forall>j < i. p (xs ! j) = Inr False \<Longrightarrow>
   findIndex_js p xs = Inr (Some i)"
proof (induction xs arbitrary: i)
  case Nil
  then show ?case by simp
next
  case (Cons x xs)
  show ?case
  proof (cases i)
    case 0
    with Cons.prems show ?thesis by simp
  next
    case (Suc k)
    with Cons.prems have "p x = Inr False" by auto
    moreover have "findIndex_js p xs = Inr (Some k)"
      using Cons.prems Suc by (intro Cons.IH) auto
    ultimately show ?thesis by (simp add: Suc)
  qed
qed

lemma speaker_id_Some:
  "speaker_id s = Some n \<longleftrightarrow> (\<exists>m. s = JObj m \<and> fmlookup m ''id'' = Some (JNum n))"
  by (cases s) (auto split: option.splits json.splits)

lemma speaker_id_get_prop:
  "speaker_id s = Some n \<Longrightarrow> get_prop s ''id'' = Inr (Some (JNum n))"
  by (auto simp: speaker_id_Some)

lemma ids_elements:
  "map speaker_id xs = map Some ids \<Longrightarrow> x \<in> set xs \<Longrightarrow> \<exists>n. speaker_id x = Some n \<and> n \<in> set ids"
proof -
  assume a: "map speaker_id xs = map Some ids" and x: "x \<in> set xs"
  from x have "speaker_id x \<in> set (map speaker_id xs)" by simp
  with a have "speaker_id x \<in> set (map Some ids)" by simp
  then show ?thesis by auto
qed

lemma ids_are_the:
  "map speaker_id xs = map Some ids \<Longrightarrow> ids = map (the \<circ> speaker_id) xs"
proof -
  assume a: "map speaker_id xs = map Some ids"
  have "map the (map speaker_id xs) = map the (map Some ids)" using a by simp
  then show ?thesis by (simp add: comp_def)
qed

lemma next_id_of_ids:
  assumes "map speaker_id xs = map Some ids" and safe: "\<forall>i \<in> set ids. isSafeInteger i"
  shows "next_id xs = NextId (max_plus_one ids)"
proof (cases ids)
  case Nil
  with assms show ?thesis by (simp add: next_id_def max_plus_one_def)
next
  case (Cons n ns)
  have "\<forall>x \<in> set xs. get_prop x ''id'' = Inr ((map_option JNum \<circ> speaker_id) x)"
  proof
    fix x assume "x \<in> set xs"
    then obtain n where "speaker_id x = Some n"
      using ids_elements [OF assms(1)] by blast
    then show "get_prop x ''id'' = Inr ((map_option JNum \<circ> speaker_id) x)"
      by (simp add: speaker_id_get_prop)
  qed
  then have m: "map_js (\<lambda>s. get_prop s ''id'') xs = Inr (map (map_option JNum \<circ> speaker_id) xs)"
    by (rule map_js_total)
  have "map (map_option JNum \<circ> speaker_id) xs = map (map_option JNum) (map speaker_id xs)"
    by simp
  also have "\<dots> = map (\<lambda>i. Some (JNum i)) ids"
    by (simp add: assms(1) comp_def)
  finally have e: "map (map_option JNum \<circ> speaker_id) xs = map (\<lambda>i. Some (JNum i)) ids" .
  have t: "those (map (num_of \<circ> (\<lambda>i. Some (JNum i))) ns) = Some ns"
    by (simp add: those_map_Some_iff comp_def)
  have mx: "fold max ns n = Max (set ids)"
    unfolding Cons by (rule Max.set_eq_fold [symmetric])
  have "Max (set ids) \<in> set ids"
    using Cons by (intro Max_in) auto
  with safe have sm: "isSafeInteger (fold max ns n)"
    unfolding mx by blast
  have len: "length xs \<noteq> 0"
    using assms(1) Cons by (metis length_map list.distinct(1) length_0_conv)
  have "next_id xs = NextId (fold max ns n + 1)"
    using len sm by (simp add: next_id_def m e t Cons)
  then show ?thesis
    by (simp add: mx Cons max_plus_one_def)
qed

section \<open>The speakers handlers on a well-formed collection\<close>

lemma speakers_okD:
  assumes "speakers_ok k st"
  obtains xs ids where "content (fs st SPEAKERS_FILE) = JArr xs"
    and "map speaker_id xs = map Some ids" and "distinct ids"
    and "\<forall>i \<in> set ids. - (2 ^ 53) < i \<and> i + int k < 2 ^ 53"
proof (cases "content (fs st SPEAKERS_FILE)")
  case (JArr xs)
  with assms obtain ids where ids: "those (map speaker_id xs) = Some ids"
    and rest: "distinct ids" "\<forall>i \<in> set ids. - (2 ^ 53) < i \<and> i + int k < 2 ^ 53"
    by (auto simp: speakers_ok_def split: option.splits)
  from ids have "map speaker_id xs = map Some ids"
    by (simp add: those_map_Some_iff)
  from that [OF JArr this rest] show ?thesis .
qed (use assms in \<open>simp_all add: speakers_ok_def\<close>)

lemma speakers_ok_room:
  "speakers_ok k st \<Longrightarrow> int k < 2 ^ 53"
  by (simp add: speakers_ok_def)

lemma speakers_ok_mono:
  "speakers_ok k st \<Longrightarrow> j \<le> k \<Longrightarrow> speakers_ok j st"
  by (auto simp: speakers_ok_def split: option.splits)

lemma read_speakers_ok:
  "speakers_ok k st \<Longrightarrow> fst (readSpeakersCached e st) = content (fs st SPEAKERS_FILE)"
  by (auto simp: readSpeakersCached_value stale_def speakers_ok_def)

lemma write_speakers_facts:
  "content (fs (writeSpeakersCached d e st) SPEAKERS_FILE) = d"
  "speakersCache (writeSpeakersCached d e st) = d"
  "speakersTimestamp (writeSpeakersCached d e st) = now_write e"
  "contentCache (writeSpeakersCached d e st) = contentCache st"
  "contentTimestamp (writeSpeakersCached d e st) = contentTimestamp st"
  "p \<noteq> SPEAKERS_FILE \<Longrightarrow> fs (writeSpeakersCached d e st) p = fs st p"
  by (simp_all add: writeSpeakersCached_def Let_def)

lemma speakers_ok_read:
  "speakers_ok k (snd (readSpeakersCached e st)) = speakers_ok k st"
  by (simp add: speakers_ok_def readSpeakersCached_frame)

lemma speakers_ok_write:
  "map speaker_id xs = map Some ids \<Longrightarrow> distinct ids \<Longrightarrow>
   \<forall>i \<in> set ids. - (2 ^ 53) < i \<and> i + int k < 2 ^ 53 \<Longrightarrow> int k < 2 ^ 53 \<Longrightarrow>
   speakers_ok k (writeSpeakersCached (JArr xs) e st)"
  by (simp add: speakers_ok_def write_speakers_facts those_map_Some_iff [THEN iffD2])

lemma new_speaker_id:
  "fmlookup (own_props body) ''id'' = None \<Longrightarrow>
   fmupd ''id'' (JNum n) fmempty ++\<^sub>f own_props body = fmupd ''id'' (JNum n) (own_props body)"
  by (rule fmap_ext) (auto simp: fmlookup_dom_iff)

lemma post_api_speakers_ok:
  assumes auth: "isAuthenticated sess" and ok: "speakers_ok k st"
    and xs: "content (fs st SPEAKERS_FILE) = JArr xs"
    and ids: "map speaker_id xs = map Some ids"
    and safe: "\<forall>i \<in> set ids. isSafeInteger i"
    and body: "fmlookup (own_props body) ''id'' = None"
  shows "post_api_speakers sess body e st =
     (let newSpeaker = JObj (fmupd ''id'' (JNum (max_plus_one ids)) (own_props body))
      in (Response 201 newSpeaker,
          writeSpeakersCached (JArr (xs @ [newSpeaker])) e (snd (readSpeakersCached e st))))"
  using auth
  by (simp add: post_api_speakers_def requireAuth_def post_api_speakers_handler_def
      split_beta read_speakers_ok [OF ok] xs next_id_of_ids [OF ids safe]
      new_speaker_id [OF body] Let_def)

lemma parseInt_NaN:
  "parseInt param = NaN \<longleftrightarrow> readInteger param = None"
  by (simp add: parseInt_def split: option.splits)

lemma parseInt_SafeInt:
  "parseInt param = SafeInt n \<longleftrightarrow> readInteger param = Some n \<and> isSafeInteger n"
  by (auto simp: parseInt_def split: option.splits)

lemma parseInt_NotSafe:
  "parseInt param = NotSafe \<longleftrightarrow> (\<exists>n. readInteger param = Some n \<and> \<not> isSafeInteger n)"
  by (auto simp: parseInt_def split: option.splits)

lemma strict_eq_num_JNum:
  "isSafeInteger n \<Longrightarrow>
   strict_eq_num (Some (JNum n)) (parseInt param) = Inr (readInteger param = Some n)"
  by (auto simp: parseInt_def split: option.splits)

lemma id_is_not_speaker:
  "speaker_id s = Some n \<Longrightarrow> isSafeInteger n \<Longrightarrow>
   id_is_not param s = Inr (speaker_id s \<noteq> readInteger param)"
  by (auto simp: id_is_not_def speaker_id_get_prop strict_eq_num_JNum)

lemma length_filter_same:
  "length (filter q xs) = length xs \<longleftrightarrow> (\<forall>x \<in> set xs. q x)"
proof
  assume l: "length (filter q xs) = length xs"
  show "\<forall>x \<in> set xs. q x"
  proof (rule ccontr)
    assume "\<not> (\<forall>x \<in> set xs. q x)"
    then obtain x where "x \<in> set xs" "\<not> q x" by blast
    then have "length (filter q xs) < length xs" by (rule length_filter_less)
    with l show False by simp
  qed
next
  assume "\<forall>x \<in> set xs. q x"
  then show "length (filter q xs) = length xs" by simp
qed

lemma delete_api_speakers_id_ok:
  assumes auth: "isAuthenticated sess" and ok: "speakers_ok k st"
    and xs: "content (fs st SPEAKERS_FILE) = JArr xs"
    and ids: "map speaker_id xs = map Some ids"
    and safe: "\<forall>i \<in> set ids. isSafeInteger i"
  shows "delete_api_speakers_id sess param e st =
     (if \<forall>x \<in> set xs. speaker_id x \<noteq> readInteger param
      then (Response 404 (error_body ''Not found''), snd (readSpeakersCached e st))
      else (Response 200 (message_body ''Deleted''),
            writeSpeakersCached (JArr (filter (\<lambda>s. speaker_id s \<noteq> readInteger param) xs)) e
              (snd (readSpeakersCached e st))))"
proof -
  have "\<forall>x \<in> set xs. id_is_not param x = Inr (speaker_id x \<noteq> readInteger param)"
  proof
    fix x assume "x \<in> set xs"
    then obtain n where "speaker_id x = Some n" "n \<in> set ids"
      using ids_elements [OF ids] by blast
    with safe show "id_is_not param x = Inr (speaker_id x \<noteq> readInteger param)"
      by (intro id_is_not_speaker) auto
  qed
  then have f: "filter_js (id_is_not param) xs
      = Inr (filter (\<lambda>s. speaker_id s \<noteq> readInteger param) xs)"
    by (rule filter_js_total)
  show ?thesis
    using auth
    by (simp add: delete_api_speakers_id_def requireAuth_def delete_api_speakers_id_handler_def
        split_beta read_speakers_ok [OF ok] xs f length_filter_same)
qed

lemma Max_fresh:
  "i \<in> set ids \<Longrightarrow> i < max_plus_one ids"
  using Max_ge [of "set ids" i] by (auto simp: max_plus_one_def)

lemma max_plus_one_room:
  assumes "\<forall>i \<in> set ids. - (2 ^ 53) < i \<and> i + int (Suc k) < 2 ^ 53" and "int (Suc k) < 2 ^ 53"
  shows "- (2 ^ 53) < max_plus_one ids \<and> max_plus_one ids + int k < 2 ^ 53"
proof (cases ids)
  case Nil
  with assms(2) show ?thesis by (simp add: max_plus_one_def)
next
  case (Cons n ns)
  then have "Max (set ids) \<in> set ids"
    by (intro Max_in) auto
  with assms(1) have "- (2 ^ 53) < Max (set ids) \<and> Max (set ids) + int (Suc k) < 2 ^ 53"
    by blast
  with Cons show ?thesis by (simp add: max_plus_one_def)
qed

lemma room_is_safe:
  "\<forall>i \<in> set ids. - (2 ^ 53) < i \<and> i + int k < 2 ^ 53 \<Longrightarrow> \<forall>i \<in> set ids. isSafeInteger i"
  by (auto simp: isSafeInteger_def)

lemma apply_op_ok:
  assumes auth: "isAuthenticated sess" and ok: "speakers_ok (Suc k) st"
    and b: "body_without_id op"
  shows "speakers_ok k (snd (apply_op sess op e st))"
proof -
  from ok obtain xs ids where xs: "content (fs st SPEAKERS_FILE) = JArr xs"
    and ids: "map speaker_id xs = map Some ids" and d: "distinct ids"
    and room: "\<forall>i \<in> set ids. - (2 ^ 53) < i \<and> i + int (Suc k) < 2 ^ 53"
    by (rule speakers_okD)
  have k: "int (Suc k) < 2 ^ 53"
    by (rule speakers_ok_room [OF ok])
  have safe: "\<forall>i \<in> set ids. isSafeInteger i"
    by (rule room_is_safe [OF room])
  have room': "\<forall>i \<in> set ids. - (2 ^ 53) < i \<and> i + int k < 2 ^ 53"
    using room by auto
  show ?thesis
  proof (cases op)
    case (Create body)
    with b have body: "fmlookup (own_props body) ''id'' = None"
      by (simp add: body_without_id_def)
    let ?n = "max_plus_one ids"
    have fresh: "?n \<notin> set ids"
      using Max_fresh [of ?n ids] by auto
    have "map speaker_id (xs @ [JObj (fmupd ''id'' (JNum ?n) (own_props body))])
        = map Some (ids @ [?n])"
      by (simp add: ids)
    moreover have "distinct (ids @ [?n])" using d fresh by simp
    moreover have "\<forall>i \<in> set (ids @ [?n]). - (2 ^ 53) < i \<and> i + int k < 2 ^ 53"
      using room' max_plus_one_room [OF room k] by auto
    moreover have "int k < 2 ^ 53" using k by simp
    ultimately have "speakers_ok k (writeSpeakersCached
        (JArr (xs @ [JObj (fmupd ''id'' (JNum ?n) (own_props body))])) e
        (snd (readSpeakersCached e st)))"
      by (rule speakers_ok_write)
    then show ?thesis
      by (simp add: Create post_api_speakers_ok [OF auth ok xs ids safe body] Let_def)
  next
    case (Delete param)
    let ?q = "\<lambda>s. speaker_id s \<noteq> readInteger param"
    have i: "ids = map (the \<circ> speaker_id) xs" by (rule ids_are_the [OF ids])
    have "\<forall>x \<in> set xs. speaker_id x = Some (the (speaker_id x))"
    proof
      fix x assume "x \<in> set xs"
      then obtain k where "speaker_id x = Some k"
        using ids_elements [OF ids] by blast
      then show "speaker_id x = Some (the (speaker_id x))" by simp
    qed
    then have "map speaker_id (filter ?q xs) = map Some (map (the \<circ> speaker_id) (filter ?q xs))"
      by simp
    moreover have "distinct (map (the \<circ> speaker_id) (filter ?q xs))"
      using d unfolding i by (rule distinct_map_filter)
    moreover have "\<forall>i \<in> set (map (the \<circ> speaker_id) (filter ?q xs)).
        - (2 ^ 53) < i \<and> i + int k < 2 ^ 53"
      using room' unfolding i by auto
    moreover have "int k < 2 ^ 53" using k by simp
    ultimately have "speakers_ok k (writeSpeakersCached (JArr (filter ?q xs)) e
        (snd (readSpeakersCached e st)))"
      by (rule speakers_ok_write)
    moreover have "speakers_ok k st"
      using ok by (rule speakers_ok_mono) simp
    ultimately show ?thesis
      by (simp add: Delete delete_api_speakers_id_ok [OF auth ok xs ids safe] speakers_ok_read)
  qed
qed

lemma run_ops_append:
  "run_ops sess (a @ b) st =
     (fst (run_ops sess a st) @ fst (run_ops sess b (snd (run_ops sess a st))),
      snd (run_ops sess b (snd (run_ops sess a st))))"
  by (induction a arbitrary: st) (auto simp: split_beta Let_def)

lemma run_ops_length:
  "length (fst (run_ops sess ops st)) = length ops"
  by (induction ops arbitrary: st) (auto simp: split_beta Let_def)

lemma run_ops_ok:
  "isAuthenticated sess \<Longrightarrow> speakers_ok (length ops + k) st \<Longrightarrow>
   \<forall>(op, e) \<in> set ops. body_without_id op \<Longrightarrow>
   speakers_ok k (snd (run_ops sess ops st))"
proof (induction ops arbitrary: st)
  case Nil
  then show ?case by simp
next
  case (Cons a ops)
  obtain op e where a: "a = (op, e)" by (cases a)
  have "speakers_ok (length ops + k) (snd (apply_op sess op e st))"
    using Cons.prems by (intro apply_op_ok) (auto simp: a)
  then have "speakers_ok k (snd (run_ops sess ops (snd (apply_op sess op e st))))"
    using Cons.prems by (intro Cons.IH) auto
  then show ?case by (simp add: a split_beta Let_def)
qed

lemma ids_of_JArr:
  "ids_of (JArr xs) = Some ids \<longleftrightarrow> map speaker_id xs = map Some ids"
  by (simp add: those_map_Some_iff)

section \<open>Id assignment over sequences of create and delete\<close>

text \<open>
  C2 (as amended). Take any sequence of authenticated create and delete requests in
  which no create body has an \<open>id\<close> property of its own, starting from a server
  whose speakers collection is well formed, with ids that stay safe integers when
  the length of the sequence is added. Every create in the sequence is answered 201
  with the caller's fields and the id given by the rule: 1 on the empty collection,
  the maximum of the ids then present plus one otherwise. That id is greater than
  every id then present and is added after them, and the ids in the collection
  stay pairwise different. The rule looks at the ids present only: nothing holds
  of the ids that were assigned earlier and deleted since.
\<close>

theorem create_assigns_max_plus_one:
  assumes "isAuthenticated sess" and "speakers_ok (length ops) st"
    and "\<forall>(op, e) \<in> set ops. body_without_id op"
    and "ops = before @ (Create body, e) # after"
  shows "\<exists>ids. ids_of (content (fs (snd (run_ops sess before st)) SPEAKERS_FILE)) = Some ids
      \<and> distinct ids
      \<and> fst (run_ops sess ops st) ! length before
          = Response 201 (JObj (fmupd ''id'' (JNum (max_plus_one ids)) (own_props body)))
      \<and> (\<forall>i \<in> set ids. i < max_plus_one ids)
      \<and> ids_of (content (fs (snd (run_ops sess (before @ [(Create body, e)]) st)) SPEAKERS_FILE))
          = Some (ids @ [max_plus_one ids])
      \<and> speakers_ok 0 (snd (run_ops sess ops st))"
proof -
  let ?st1 = "snd (run_ops sess before st)"
  have pre: "\<forall>(op, e) \<in> set before. body_without_id op"
    using assms(3,4) by auto
  have "speakers_ok (length before + Suc (length after)) st"
    using assms(2) by (simp add: assms(4))
  then have ok1: "speakers_ok (Suc (length after)) ?st1"
    using pre by (intro run_ops_ok [OF assms(1)])
  then obtain xs ids where xs: "content (fs ?st1 SPEAKERS_FILE) = JArr xs"
    and ids: "map speaker_id xs = map Some ids" and d: "distinct ids"
    and room: "\<forall>i \<in> set ids. - (2 ^ 53) < i \<and> i + int (Suc (length after)) < 2 ^ 53"
    by (rule speakers_okD)
  have safe: "\<forall>i \<in> set ids. isSafeInteger i"
    by (rule room_is_safe [OF room])
  have body: "fmlookup (own_props body) ''id'' = None"
    using assms(3,4) by (auto simp: body_without_id_def)
  note post = post_api_speakers_ok [OF assms(1) ok1 xs ids safe body, of e]
  have a: "ids_of (content (fs ?st1 SPEAKERS_FILE)) = Some ids"
    by (simp only: xs ids_of_JArr ids)
  have r: "fst (run_ops sess ops st) ! length before
      = Response 201 (JObj (fmupd ''id'' (JNum (max_plus_one ids)) (own_props body)))"
    by (simp add: assms(4) run_ops_append nth_append run_ops_length split_beta post Let_def)
  have lt: "\<forall>i \<in> set ids. i < max_plus_one ids"
    by (simp add: Max_fresh)
  have "map speaker_id (xs @ [JObj (fmupd ''id'' (JNum (max_plus_one ids)) (own_props body))])
      = map Some (ids @ [max_plus_one ids])"
    by (simp add: ids)
  then have "ids_of (JArr (xs @ [JObj (fmupd ''id'' (JNum (max_plus_one ids)) (own_props body))]))
      = Some (ids @ [max_plus_one ids])"
    by (simp only: ids_of_JArr)
  moreover have "content (fs (snd (run_ops sess (before @ [(Create body, e)]) st)) SPEAKERS_FILE)
      = JArr (xs @ [JObj (fmupd ''id'' (JNum (max_plus_one ids)) (own_props body))])"
    by (simp add: run_ops_append split_beta post Let_def write_speakers_facts)
  ultimately have s: "ids_of (content (fs (snd (run_ops sess (before @ [(Create body, e)]) st))
      SPEAKERS_FILE)) = Some (ids @ [max_plus_one ids])"
    by (simp only:)
  have ok: "speakers_ok 0 (snd (run_ops sess ops st))"
    using assms(2,3) by (intro run_ops_ok [OF assms(1)]) auto
  from a d r lt s ok show ?thesis by blast
qed

theorem create_assigns_max_plus_one_witness:
  "isAuthenticated admin_session \<and> speakers_ok (length busy_ops) two_speakers
   \<and> list_all (\<lambda>(op, e). body_without_id op) busy_ops
   \<and> ids_of (content (fs two_speakers SPEAKERS_FILE)) = Some [1, 5]
   \<and> ids_of (content (fs (snd (run_ops admin_session (take 1 busy_ops) two_speakers))
         SPEAKERS_FILE)) = Some [1]
   \<and> fst (run_ops admin_session busy_ops two_speakers) ! 1
       = Response 201 (JObj (fmupd ''id'' (JNum 2) (own_props (named ''Bob''))))
   \<and> ids_of (content (fs (snd (run_ops admin_session (take 2 busy_ops) two_speakers))
         SPEAKERS_FILE)) = Some [1, 2]
   \<and> fst (run_ops admin_session busy_ops two_speakers) ! 2
       = Response 201 (JObj (fmupd ''id'' (JNum 3) (own_props (named ''Cy''))))
   \<and> speakers_ok 0 (snd (run_ops admin_session busy_ops two_speakers))"
proof -
  have h1: "isAuthenticated admin_session"
    by (simp add: admin_session_def)
  have h2: "speakers_ok (length busy_ops) two_speakers"
    by (simp add: speakers_ok_def two_speakers_def with_speakers_def speaker_def busy_ops_def
        startup_def)
  have h3: "\<forall>(op, e) \<in> set busy_ops. body_without_id op"
    by (simp add: busy_ops_def body_without_id_def named_def)
  have h4: "busy_ops = take 1 busy_ops
      @ (Create (named ''Bob''), at_time 2001) # [(Create (named ''Cy''), at_time 2002)]"
    by (simp add: busy_ops_def)
  have h5: "busy_ops = take 2 busy_ops @ (Create (named ''Cy''), at_time 2002) # []"
    by (simp add: busy_ops_def)
  have l: "length (take 1 busy_ops) = 1" "length (take 2 busy_ops) = 2"
    "take 1 busy_ops @ [(Create (named ''Bob''), at_time 2001)] = take 2 busy_ops"
    by (simp_all add: busy_ops_def)
  have i0: "ids_of (content (fs two_speakers SPEAKERS_FILE)) = Some [1, 5]"
    by (simp add: two_speakers_def with_speakers_def speaker_def)
  have i1: "ids_of (content (fs (snd (run_ops admin_session (take 1 busy_ops) two_speakers))
      SPEAKERS_FILE)) = Some [1]"
    by code_simp
  have m: "max_plus_one [1] = 2" "max_plus_one [1, 2] = 3"
    by (simp_all add: max_plus_one_def)
  from create_assigns_max_plus_one [OF h1 h2 h3 h4]
  obtain ids where a:
    "ids_of (content (fs (snd (run_ops admin_session (take 1 busy_ops) two_speakers))
        SPEAKERS_FILE)) = Some ids"
    and b: "fst (run_ops admin_session busy_ops two_speakers) ! 1
        = Response 201 (JObj (fmupd ''id'' (JNum (max_plus_one ids)) (own_props (named ''Bob''))))"
    and c: "ids_of (content (fs (snd (run_ops admin_session (take 2 busy_ops) two_speakers))
        SPEAKERS_FILE)) = Some (ids @ [max_plus_one ids])"
    and ok: "speakers_ok 0 (snd (run_ops admin_session busy_ops two_speakers))"
    unfolding l by blast
  from a i1 have e: "ids = [1]"
    by simp
  have r1: "fst (run_ops admin_session busy_ops two_speakers) ! 1
        = Response 201 (JObj (fmupd ''id'' (JNum 2) (own_props (named ''Bob''))))"
    using b unfolding e m .
  have i2: "ids_of (content (fs (snd (run_ops admin_session (take 2 busy_ops) two_speakers))
        SPEAKERS_FILE)) = Some [1, 2]"
    using c unfolding e m by simp
  from create_assigns_max_plus_one [OF h1 h2 h3 h5]
  obtain ids' where a':
    "ids_of (content (fs (snd (run_ops admin_session (take 2 busy_ops) two_speakers))
        SPEAKERS_FILE)) = Some ids'"
    and b': "fst (run_ops admin_session busy_ops two_speakers) ! 2
        = Response 201 (JObj (fmupd ''id'' (JNum (max_plus_one ids')) (own_props (named ''Cy''))))"
    unfolding l by blast
  from a' i2 have e': "ids' = [1, 2]"
    by simp
  have r2: "fst (run_ops admin_session busy_ops two_speakers) ! 2
        = Response 201 (JObj (fmupd ''id'' (JNum 3) (own_props (named ''Cy''))))"
    using b' unfolding e' m .
  have h3': "list_all (\<lambda>(op, e). body_without_id op) busy_ops"
    using h3 by (simp add: list_all_iff)
  from h1 h2 h3' i0 i1 r1 i2 r2 ok show ?thesis
    by (intro conjI)
qed

text \<open>
  C2 as stated fails: from the empty collection, a create, the delete of the record
  with id 1 (the maximum) and another create assign the ids 1 and 1. The ids
  assigned are not strictly increasing, and the id 1 is assigned again.
\<close>

theorem deleted_max_id_is_assigned_again:
  "fst (run_ops admin_session sample_ops startup)
     = [Response 201 (speaker 1 ''Ada''),
        Response 200 (message_body ''Deleted''),
        Response 201 (speaker 1 ''Bob'')]"
  by code_simp

text \<open>
  C1, evaluated where the code departs from it. The collection holds one record with
  id 1, so the rule gives 2; the body carries \<open>id: 1\<close>. The record answered and
  stored has the id of the body, and the collection now holds the id 1 twice.
\<close>

theorem create_takes_id_from_body:
  "(let st = with_speakers [speaker 1 ''Ada''] startup;
        (r, st') = post_api_speakers admin_session (speaker 1 ''Eve'') (at_time 2000) st
    in next_id [speaker 1 ''Ada''] = NextId 2
       \<and> r = Response 201 (speaker 1 ''Eve'')
       \<and> content (fs st' SPEAKERS_FILE) = JArr [speaker 1 ''Ada'', speaker 1 ''Eve''])"
  by code_simp

section \<open>Updating a speaker\<close>

lemma id_is_has_id:
  "safe_record s \<Longrightarrow> id_is param s = Inr (has_id param s)"
  by (cases s)
     (auto simp: id_is_def has_id_def safe_record_def strict_eq_num_JNum
       split: option.splits json.splits)

lemma id_is_not_has_id:
  "safe_record s \<Longrightarrow> id_is_not param s = Inr (\<not> has_id param s)"
  by (cases s)
     (auto simp: id_is_not_def has_id_def safe_record_def strict_eq_num_JNum
       split: option.splits json.splits)

lemma has_id_object:
  "has_id param s \<Longrightarrow> \<exists>m n. s = JObj m \<and> fmlookup m ''id'' = Some (JNum n) \<and> readInteger param = Some n"
  by (cases "readInteger param") (auto simp: has_id_def speaker_id_Some)

text \<open>
  C7. Take an authenticated \<open>PUT /api/speakers/:id\<close> on a collection of safe
  records. If no record carries the id of the path, the answer is 404
  \<open>Speaker not found\<close> and neither the cache variables nor the files change.
  Otherwise, with \<open>i\<close> the first record that carries it, the answer is 200 with a
  record whose \<open>id\<close> is the one of record \<open>i\<close> (whatever \<open>id\<close> the body
  holds), whose other properties are those of the body where the body has them and
  those of record \<open>i\<close> where it has not, and this record replaces record \<open>i\<close>
  in the file and in the cache variable.
\<close>

theorem update_merges_and_keeps_id:
  assumes auth: "isAuthenticated sess"
    and xs: "fst (readSpeakersCached e st) = JArr xs"
    and safe: "\<forall>s \<in> set xs. safe_record s"
  shows "((\<forall>s \<in> set xs. \<not> has_id param s) \<longrightarrow>
            fst (put_api_speakers_id sess param body e st)
              = Response 404 (error_body ''Speaker not found'')
            \<and> cache_vars (snd (put_api_speakers_id sess param body e st)) = cache_vars st
            \<and> fs (snd (put_api_speakers_id sess param body e st)) = fs st)
       \<and> (\<forall>i. i < length xs \<and> has_id param (xs ! i) \<and> (\<forall>j < i. \<not> has_id param (xs ! j)) \<longrightarrow>
            (\<exists>m. fst (put_api_speakers_id sess param body e st) = Response 200 (JObj m)
              \<and> fmlookup m ''id'' = fmlookup (own_props (xs ! i)) ''id''
              \<and> has_id param (JObj m)
              \<and> (\<forall>k. k \<noteq> ''id'' \<longrightarrow> fmlookup m k = merged_field (xs ! i) body k)
              \<and> content (fs (snd (put_api_speakers_id sess param body e st)) SPEAKERS_FILE)
                  = JArr (xs[i := JObj m])
              \<and> speakersCache (snd (put_api_speakers_id sess param body e st))
                  = JArr (xs[i := JObj m])))"
proof (intro conjI impI allI)
  assume none: "\<forall>s \<in> set xs. \<not> has_id param s"
  have "\<forall>s \<in> set xs. id_is param s = Inr False"
  proof
    fix s assume s: "s \<in> set xs"
    with safe have "safe_record s" by auto
    with none s show "id_is param s = Inr False" by (simp add: id_is_has_id)
  qed
  then have f: "findIndex_js (id_is param) xs = Inr None"
    by (rule findIndex_js_none)
  have p: "put_api_speakers_id sess param body e st
      = (Response 404 (error_body ''Speaker not found''), snd (readSpeakersCached e st))"
    using auth xs
    by (simp add: put_api_speakers_id_def requireAuth_def put_api_speakers_id_handler_def
        split_beta f)
  show "fst (put_api_speakers_id sess param body e st)
      = Response 404 (error_body ''Speaker not found'')"
    by (simp add: p)
  show "cache_vars (snd (put_api_speakers_id sess param body e st)) = cache_vars st"
    by (simp add: p cache_vars_def readSpeakersCached_frame)
  show "fs (snd (put_api_speakers_id sess param body e st)) = fs st"
    by (simp add: p readSpeakersCached_frame)
next
  fix i
  assume a: "i < length xs \<and> has_id param (xs ! i) \<and> (\<forall>j < i. \<not> has_id param (xs ! j))"
  then have i: "i < length xs" and h: "has_id param (xs ! i)"
    and before: "\<forall>j < i. \<not> has_id param (xs ! j)"
    by auto
  have nn: "\<And>j. j < length xs \<Longrightarrow> safe_record (xs ! j)"
    using safe by simp
  have "id_is param (xs ! i) = Inr True"
    using h nn [OF i] by (simp add: id_is_has_id)
  moreover have "\<forall>j < i. id_is param (xs ! j) = Inr False"
    using before i nn by (simp add: id_is_has_id)
  ultimately have f: "findIndex_js (id_is param) xs = Inr (Some i)"
    using i by (intro findIndex_js_first) auto
  from has_id_object [OF h] obtain mo n where mo: "xs ! i = JObj mo"
    and idv: "fmlookup mo ''id'' = Some (JNum n)" and pn: "readInteger param = Some n"
    by blast
  let ?m = "fmupd ''id'' (JNum n) (mo ++\<^sub>f own_props body)"
  have p: "put_api_speakers_id sess param body e st
      = (Response 200 (JObj ?m),
         writeSpeakersCached (JArr (xs[i := JObj ?m])) e (snd (readSpeakersCached e st)))"
    using auth xs
    by (simp add: put_api_speakers_id_def requireAuth_def put_api_speakers_id_handler_def
        split_beta f mo idv Let_def)
  have "fst (put_api_speakers_id sess param body e st) = Response 200 (JObj ?m)"
    by (simp add: p)
  moreover have "fmlookup ?m ''id'' = fmlookup (own_props (xs ! i)) ''id''"
    by (simp add: mo idv)
  moreover have "has_id param (JObj ?m)"
    by (simp add: has_id_def pn)
  moreover have "\<forall>k. k \<noteq> ''id'' \<longrightarrow> fmlookup ?m k = merged_field (xs ! i) body k"
    by (auto simp: merged_field_def mo fmlookup_dom_iff split: option.splits)
  moreover have "content (fs (snd (put_api_speakers_id sess param body e st)) SPEAKERS_FILE)
      = JArr (xs[i := JObj ?m])"
    by (simp add: p write_speakers_facts)
  moreover have "speakersCache (snd (put_api_speakers_id sess param body e st))
      = JArr (xs[i := JObj ?m])"
    by (simp add: p write_speakers_facts)
  ultimately show "\<exists>m. fst (put_api_speakers_id sess param body e st) = Response 200 (JObj m)
      \<and> fmlookup m ''id'' = fmlookup (own_props (xs ! i)) ''id''
      \<and> has_id param (JObj m)
      \<and> (\<forall>k. k \<noteq> ''id'' \<longrightarrow> fmlookup m k = merged_field (xs ! i) body k)
      \<and> content (fs (snd (put_api_speakers_id sess param body e st)) SPEAKERS_FILE)
          = JArr (xs[i := JObj m])
      \<and> speakersCache (snd (put_api_speakers_id sess param body e st))
          = JArr (xs[i := JObj m])"
    by blast
qed

section \<open>Listing and deleting users\<close>

lemma map_of_defined_props:
  "distinct (map fst kvs) \<Longrightarrow>
   map_of (concat (map (\<lambda>(k, v). case v of None \<Rightarrow> [] | Some x \<Rightarrow> [(k, x)]) kvs)) k
     = (case map_of kvs k of None \<Rightarrow> None | Some v \<Rightarrow> v)"
proof (induction kvs)
  case Nil
  then show ?case by simp
next
  case (Cons kv kvs)
  obtain k' v where kv: "kv = (k', v)" by (cases kv)
  have absent: "map_of kvs k' = None"
    using Cons.prems by (simp add: kv map_of_eq_None_iff)
  show ?case
    using Cons absent by (cases v) (auto simp: kv)
qed

lemma get_prop_json_object:
  "distinct (map fst kvs) \<Longrightarrow>
   get_prop (json_object kvs) k = Inr (case map_of kvs k of None \<Rightarrow> None | Some v \<Rightarrow> v)"
  by (simp add: json_object_def fmlookup_of_list map_of_defined_props)

lemma sanitize_nonnull:
  "u \<noteq> JNull \<Longrightarrow> \<exists>v. sanitize u = Inr v
     \<and> (\<forall>k. get_prop v k =
          (if k \<in> {''username'', ''createdAt'', ''passwordChangedAt'', ''lastLogin''}
           then get_prop u k else Inr None))"
  by (cases u) (simp_all add: sanitize_def get_prop_json_object)

lemma map_js_pointwise:
  "\<forall>x \<in> set xs. \<exists>y. f x = Inr y \<and> P x y \<Longrightarrow>
   \<exists>ys. map_js f xs = Inr ys \<and> length ys = length xs \<and> (\<forall>i < length xs. P (xs ! i) (ys ! i))"
proof (induction xs)
  case Nil
  then show ?case by simp
next
  case (Cons x xs)
  then obtain y where y: "f x = Inr y" "P x y" by auto
  from Cons obtain ys where ys: "map_js f xs = Inr ys" "length ys = length xs"
    "\<forall>i < length xs. P (xs ! i) (ys ! i)" by auto
  have "\<forall>i < length (x # xs). P ((x # xs) ! i) ((y # ys) ! i)"
    using y ys by (auto simp: nth_Cons split: nat.splits)
  then show ?case
    using y ys by auto
qed

text \<open>
  C8. An authenticated \<open>GET /api/users\<close> on a users file without \<open>null\<close>
  elements answers 200 with one element per stored user, in order; element \<open>i\<close>
  has the \<open>username\<close>, \<open>createdAt\<close>, \<open>passwordChangedAt\<close> and \<open>lastLogin\<close> of
  user \<open>i\<close> and no \<open>passwordHash\<close>. The state is unchanged.
\<close>

theorem users_listed_without_passwordHash:
  assumes "isAuthenticated sess"
    and "content (fs st USERS_FILE) = JArr users"
    and "JNull \<notin> set users"
  shows "\<exists>out. get_api_users sess st = (Response 200 (JArr out), st)
      \<and> length out = length users
      \<and> (\<forall>i < length users.
            get_prop (out ! i) ''username'' = get_prop (users ! i) ''username''
          \<and> get_prop (out ! i) ''createdAt'' = get_prop (users ! i) ''createdAt''
          \<and> get_prop (out ! i) ''passwordChangedAt'' = get_prop (users ! i) ''passwordChangedAt''
          \<and> get_prop (out ! i) ''lastLogin'' = get_prop (users ! i) ''lastLogin''
          \<and> get_prop (out ! i) ''passwordHash'' = Inr None)"
proof -
  let ?P = "\<lambda>u v. \<forall>k. get_prop v k =
      (if k \<in> {''username'', ''createdAt'', ''passwordChangedAt'', ''lastLogin''}
       then get_prop u k else Inr None)"
  have "\<forall>u \<in> set users. \<exists>v. sanitize u = Inr v \<and> ?P u v"
    using assms(3) sanitize_nonnull by metis
  from map_js_pointwise [of users sanitize ?P, OF this]
  obtain out where out: "map_js sanitize users = Inr out" "length out = length users"
    "\<forall>i < length users. ?P (users ! i) (out ! i)" by blast
  have "get_api_users sess st = (Response 200 (JArr out), st)"
    using assms(1,2) out(1)
    by (simp add: get_api_users_def requireAuth_def get_api_users_handler_def)
  moreover have "\<forall>i < length users.
        get_prop (out ! i) ''username'' = get_prop (users ! i) ''username''
      \<and> get_prop (out ! i) ''createdAt'' = get_prop (users ! i) ''createdAt''
      \<and> get_prop (out ! i) ''passwordChangedAt'' = get_prop (users ! i) ''passwordChangedAt''
      \<and> get_prop (out ! i) ''lastLogin'' = get_prop (users ! i) ''lastLogin''
      \<and> get_prop (out ! i) ''passwordHash'' = Inr None"
    using out(3) by simp
  ultimately show ?thesis using out(2) by blast
qed

lemma strict_eq_JStr:
  "strict_eq v (Some (JStr s)) = (v = Some (JStr s))"
  "strict_eq (Some (JStr s)) v = (v = Some (JStr s))"
  by (cases v; cases "the v"; auto)+

lemma username_is_not_named:
  "u \<noteq> JNull \<Longrightarrow> username_is_not (Some (JStr name)) u = Inr (\<not> named_user name u)"
  by (cases u) (auto simp: username_is_not_def named_user_def strict_eq_JStr)

lemma username_is_named:
  "u \<noteq> JNull \<Longrightarrow> username_is (Some (JStr name)) u = Inr (named_user name u)"
  by (cases u) (auto simp: username_is_def named_user_def strict_eq_JStr)

text \<open>
  C6 (as amended). An authenticated \<open>DELETE /api/users/:username\<close> on a users file
  without \<open>null\<close> elements: 400 \<open>Cannot delete your own account\<close> when the
  target is the session's user name; otherwise 400 \<open>Cannot delete the last user\<close>
  when the file holds at most one user, whether or not the target is among them;
  otherwise 404 \<open>User not found\<close> when no user has that name; otherwise 200, and
  the users file holds the users with a different name, in their order. Nothing
  else of the state changes, and nothing changes in the first three cases.
\<close>

theorem delete_user_outcomes:
  assumes "isAuthenticated sess"
    and "content (fs st USERS_FILE) = JArr users"
    and "JNull \<notin> set users"
  shows "delete_api_users sess param e st =
     (if username sess = Some (JStr param)
      then (Response 400 (error_body ''Cannot delete your own account''), st)
      else if length users \<le> 1
      then (Response 400 (error_body ''Cannot delete the last user''), st)
      else if \<forall>u \<in> set users. \<not> named_user param u
      then (Response 404 (error_body ''User not found''), st)
      else (Response 200 (success_body ''User deleted successfully''),
            st\<lparr>fs := (fs st)(USERS_FILE :=
                   \<lparr>content = JArr (filter (\<lambda>u. \<not> named_user param u) users),
                    mtimeMs = mtime_write e\<rparr>)\<rparr>))"
proof -
  have "\<forall>u \<in> set users. username_is_not (Some (JStr param)) u = Inr (\<not> named_user param u)"
  proof
    fix u assume "u \<in> set users"
    with assms(3) have "u \<noteq> JNull" by auto
    then show "username_is_not (Some (JStr param)) u = Inr (\<not> named_user param u)"
      by (rule username_is_not_named)
  qed
  then have f: "filter_js (username_is_not (Some (JStr param))) users
      = Inr (filter (\<lambda>u. \<not> named_user param u) users)"
    by (rule filter_js_total)
  show ?thesis
    using assms(1,2)
    by (simp add: delete_api_users_def requireAuth_def delete_api_users_handler_def
        strict_eq_JStr f length_filter_same)
qed

section \<open>Login\<close>

lemma named_user_object:
  "named_user name u \<Longrightarrow> \<exists>m. u = JObj m"
  by (cases u) (auto simp: named_user_def)

lemma find_user:
  assumes "JNull \<notin> set users"
  shows "find_js (username_is (Some (JStr name))) users = Inr (List.find (named_user name) users)"
proof -
  have "\<forall>u \<in> set users. username_is (Some (JStr name)) u = Inr (named_user name u)"
  proof
    fix u assume "u \<in> set users"
    with assms have "u \<noteq> JNull" by auto
    then show "username_is (Some (JStr name)) u = Inr (named_user name u)"
      by (rule username_is_named)
  qed
  then show ?thesis by (rule find_js_total)
qed

lemma login_absent:
  assumes users: "content (fs st USERS_FILE) = JArr users" and nonnull: "JNull \<notin> set users"
    and b: "get_prop body ''username'' = Inr (Some (JStr name))"
      "get_prop body ''password'' = Inr (Some (JStr pw))"
    and ne: "name \<noteq> []" "pw \<noteq> []"
    and absent: "\<forall>u \<in> set users. \<not> named_user name u"
  shows "post_api_auth_login_handler compare body sess st
      = (Response 401 (error_body ''Invalid credentials''), sess)"
proof -
  have "List.find (named_user name) users = None"
    using absent by (simp add: find_None_iff)
  then show ?thesis
    using users b ne by (simp add: post_api_auth_login_handler_def find_user [OF nonnull])
qed

lemma login_wrong_password:
  assumes users: "content (fs st USERS_FILE) = JArr users" and nonnull: "JNull \<notin> set users"
    and b: "get_prop body ''username'' = Inr (Some (JStr name))"
      "get_prop body ''password'' = Inr (Some (JStr pw))"
    and ne: "name \<noteq> []" "pw \<noteq> []"
    and exists: "\<exists>u \<in> set users. named_user name u"
    and wrong: "\<forall>u \<in> set users. named_user name u \<longrightarrow>
        (\<forall>h. get_prop u ''passwordHash'' = Inr h \<longrightarrow>
           compare (Some (JStr pw)) h = Some False)"
  shows "post_api_auth_login_handler compare body sess st
      = (Response 401 (error_body ''Invalid credentials''), sess)"
proof -
  from exists obtain u where f: "List.find (named_user name) users = Some u"
    by (cases "List.find (named_user name) users") (auto simp: find_None_iff)
  then have u: "u \<in> set users" "named_user name u"
    by (auto simp: find_Some_iff)
  then obtain m where m: "u = JObj m"
    using named_user_object by blast
  have "compare (Some (JStr pw)) (fmlookup m ''passwordHash'') = Some False"
    using wrong u by (simp add: m)
  then show ?thesis
    using users b ne
    by (simp add: post_api_auth_login_handler_def find_user [OF nonnull] f m)
qed

text \<open>
  Where the two failures of a login do look alike. Take a users file without
  \<open>null\<close> elements and two login bodies whose user name and password are
  non-empty strings: in the first the user name exists and \<open>bcrypt.compare\<close>
  reports a mismatch for the submitted password, in the second no user has the user
  name. The handler answers both with 401 and the body
  \<open>{error: 'Invalid credentials'}\<close>, and leaves the session as it was.
\<close>

lemma login_failures_look_alike:
  assumes "content (fs st USERS_FILE) = JArr users" and "JNull \<notin> set users"
    and "get_prop body1 ''username'' = Inr (Some (JStr name1))"
    and "get_prop body1 ''password'' = Inr (Some (JStr pw1))"
    and "get_prop body2 ''username'' = Inr (Some (JStr name2))"
    and "get_prop body2 ''password'' = Inr (Some (JStr pw2))"
    and "name1 \<noteq> []" and "pw1 \<noteq> []" and "name2 \<noteq> []" and "pw2 \<noteq> []"
    and "\<exists>u \<in> set users. named_user name1 u"
    and "\<forall>u \<in> set users. named_user name1 u \<longrightarrow>
        (\<forall>h. get_prop u ''passwordHash'' = Inr h \<longrightarrow>
           compare (Some (JStr pw1)) h = Some False)"
    and "\<forall>u \<in> set users. \<not> named_user name2 u"
  shows "post_api_auth_login_handler compare body1 sess st
           = (Response 401 (error_body ''Invalid credentials''), sess)
       \<and> post_api_auth_login_handler compare body2 sess st
           = (Response 401 (error_body ''Invalid credentials''), sess)"
proof -
  have "post_api_auth_login_handler compare body1 sess st
      = (Response 401 (error_body ''Invalid credentials''), sess)"
    using assms(1,2,3,4,7,8,11,12)
    by (rule login_wrong_password [where name = name1 and pw = pw1 and users = users])
  moreover have "post_api_auth_login_handler compare body2 sess st
      = (Response 401 (error_body ''Invalid credentials''), sess)"
    using assms(1,2,5,6,9,10,13)
    by (rule login_absent [where name = name2 and pw = pw2 and users = users])
  ultimately show ?thesis by simp
qed

text \<open>
  C5, evaluated where the code departs from it. The users file holds the user
  \<open>admin\<close> only. Two login requests carry the number 5 as the password, which
  passes the test \<open>!username || !password\<close>. For the user name \<open>ghost\<close>, which
  does not exist, the answer is 401 \<open>Invalid credentials\<close>. For \<open>admin\<close>, which
  exists, \<open>bcrypt.compare\<close> is called with the number, rejects it, and the
  \<open>catch\<close> answers 500 \<open>Login failed\<close>: the two responses differ in status
  and in body.
\<close>

theorem numeric_password_tells_users_apart:
  "content (fs startup USERS_FILE) = JArr [admin_user]
   \<and> named_user ''admin'' admin_user
   \<and> \<not> named_user ''ghost'' admin_user
   \<and> express_json (numeric_password_login ''admin'')
       = Inr (JObj (fmap_of_list [(''username'', JStr ''admin''), (''password'', JNum 5)]))
   \<and> express_json (numeric_password_login ''ghost'')
       = Inr (JObj (fmap_of_list [(''username'', JStr ''ghost''), (''password'', JNum 5)]))
   \<and> sample_compare (Some (JNum 5)) (Some (JStr ''$2b$10$sample.hash.of.changeme123'')) = None
   \<and> post_api_auth_login sample_compare (numeric_password_login ''admin'') anonymous startup
       = (Response 500 (error_body ''Login failed''), anonymous)
   \<and> post_api_auth_login sample_compare (numeric_password_login ''ghost'') anonymous startup
       = (Response 401 (error_body ''Invalid credentials''), anonymous)"
proof -
  let ?admin = "JObj (fmap_of_list [(''username'', JStr ''admin''), (''password'', JNum 5)])"
  let ?ghost = "JObj (fmap_of_list [(''username'', JStr ''ghost''), (''password'', JNum 5)])"
  have u: "content (fs startup USERS_FILE) = JArr [admin_user]
      \<and> named_user ''admin'' admin_user \<and> \<not> named_user ''ghost'' admin_user
      \<and> sample_compare (Some (JNum 5)) (Some (JStr ''$2b$10$sample.hash.of.changeme123'')) = None"
    by code_simp
  have s: "safe_doc ?admin" "safe_doc ?ghost"
    by code_simp+
  have e: "express_json (numeric_password_login ''admin'') = Inr ?admin"
    "express_json (numeric_password_login ''ghost'') = Inr ?ghost"
    using s by (simp_all add: express_json_def numeric_password_login_def)
  have h: "post_api_auth_login_handler sample_compare ?admin anonymous startup
      = (Response 500 (error_body ''Login failed''), anonymous)"
    "post_api_auth_login_handler sample_compare ?ghost anonymous startup
      = (Response 401 (error_body ''Invalid credentials''), anonymous)"
    by code_simp+
  have r: "post_api_auth_login sample_compare (numeric_password_login ''admin'') anonymous startup
      = (Response 500 (error_body ''Login failed''), anonymous)"
    "post_api_auth_login sample_compare (numeric_password_login ''ghost'') anonymous startup
      = (Response 401 (error_body ''Invalid credentials''), anonymous)"
    by (simp_all only: post_api_auth_login_def e h sum.case)
  from u e r show ?thesis
    by (intro conjI) simp_all
qed

section \<open>The id of the path\<close>

lemma isRadixDigit_10:
  "isRadixDigit 10 c \<longleftrightarrow> 48 \<le> (of_char c :: nat) \<and> (of_char c :: nat) \<le> 57"
  by (auto simp: isRadixDigit_def digitValue_def Let_def)

lemma isRadixDigit_16:
  "isRadixDigit 16 c \<longleftrightarrow>
     (48 \<le> (of_char c :: nat) \<and> (of_char c :: nat) \<le> 57)
     \<or> (97 \<le> (of_char c :: nat) \<and> (of_char c :: nat) \<le> 102)
     \<or> (65 \<le> (of_char c :: nat) \<and> (of_char c :: nat) \<le> 70)"
  by (auto simp: isRadixDigit_def digitValue_def Let_def)

lemma digit_is_no_prefix_char:
  assumes "isRadixDigit 10 c"
  shows "\<not> isWhiteSpace c" and "c \<noteq> CHR ''-''" and "c \<noteq> CHR ''+''"
  using assms by (auto simp: isRadixDigit_10 isWhiteSpace_def)

lemma takeWhile_prefix:
  "\<forall>c \<in> set ds. P c \<Longrightarrow> rest = [] \<or> \<not> P (hd rest) \<Longrightarrow> takeWhile P (ds @ rest) = ds"
  by (cases rest) (auto simp: takeWhile_append2)

lemma readInteger_decimal_prefix:
  assumes ne: "ds \<noteq> []" and digits: "\<forall>c \<in> set ds. isRadixDigit 10 c"
    and rest: "rest = [] \<or> \<not> isRadixDigit 10 (hd rest)"
    and nohex: "\<not> hasHexPrefix (ds @ rest)"
  shows "readInteger (ds @ rest) = Some (mathInt 10 ds)"
proof -
  from ne obtain d ds' where ds: "ds = d # ds'" by (cases ds) auto
  with digits have d: "isRadixDigit 10 d" by simp
  have dw: "dropWhile isWhiteSpace (ds @ rest) = ds @ rest"
    using digit_is_no_prefix_char(1) [OF d] by (simp add: ds)
  have sg: "hd (ds @ rest) \<noteq> CHR ''-''" "hd (ds @ rest) \<noteq> CHR ''+''"
    using digit_is_no_prefix_char(2,3) [OF d] by (simp_all add: ds)
  have tw: "takeWhile (isRadixDigit 10) (ds @ rest) = ds"
    by (rule takeWhile_prefix [OF digits rest])
  show ?thesis
    using ne nohex sg by (simp add: readInteger_def dw tw Let_def)
qed

lemma readInteger_hex:
  assumes ne: "hs \<noteq> []" and digits: "\<forall>c \<in> set hs. isRadixDigit 16 c"
    and rest: "rest = [] \<or> \<not> isRadixDigit 16 (hd rest)"
  shows "readInteger (''0x'' @ hs @ rest) = Some (mathInt 16 hs)"
    and "readInteger (''0X'' @ hs @ rest) = Some (mathInt 16 hs)"
proof -
  have tw: "takeWhile (isRadixDigit 16) (hs @ rest) = hs"
    by (rule takeWhile_prefix [OF digits rest])
  have nw: "\<not> isWhiteSpace CHR ''0''"
    by (simp add: isWhiteSpace_def)
  show "readInteger (''0x'' @ hs @ rest) = Some (mathInt 16 hs)"
    using ne by (simp add: readInteger_def nw hasHexPrefix_def tw Let_def)
  show "readInteger (''0X'' @ hs @ rest) = Some (mathInt 16 hs)"
    using ne by (simp add: readInteger_def nw hasHexPrefix_def tw Let_def)
qed

lemma parseInt_decimal_prefix:
  assumes "ds \<noteq> []" and "\<forall>c \<in> set ds. isRadixDigit 10 c"
    and "rest = [] \<or> \<not> isRadixDigit 10 (hd rest)"
    and "\<not> hasHexPrefix (ds @ rest)"
  shows "parseInt (ds @ rest)
      = (if isSafeInteger (mathInt 10 ds) then SafeInt (mathInt 10 ds) else NotSafe)"
  by (simp add: parseInt_def readInteger_decimal_prefix [OF assms])

lemma parseInt_hex:
  assumes "hs \<noteq> []" and "\<forall>c \<in> set hs. isRadixDigit 16 c"
    and "rest = [] \<or> \<not> isRadixDigit 16 (hd rest)"
  shows "parseInt (''0x'' @ hs @ rest)
      = (if isSafeInteger (mathInt 16 hs) then SafeInt (mathInt 16 hs) else NotSafe)"
    and "parseInt (''0X'' @ hs @ rest)
      = (if isSafeInteger (mathInt 16 hs) then SafeInt (mathInt 16 hs) else NotSafe)"
  by (simp_all only: parseInt_def readInteger_hex [OF assms] option.case)

lemma has_id_NaN:
  "parseInt param = NaN \<Longrightarrow> \<not> has_id param s"
  by (simp add: has_id_def parseInt_NaN)

lemma has_id_NotSafe:
  "parseInt param = NotSafe \<Longrightarrow> safe_record s \<Longrightarrow> \<not> has_id param s"
  by (auto simp: has_id_def parseInt_NotSafe safe_record_def split: option.splits)

lemma has_id_number:
  "parseInt param = SafeInt n \<Longrightarrow> has_id param s = (speaker_id s = Some n)"
  by (auto simp: has_id_def parseInt_SafeInt)

lemma find_speaker:
  assumes "\<forall>s \<in> set xs. safe_record s"
  shows "find_js (id_is param) xs = Inr (List.find (has_id param) xs)"
proof -
  have "\<forall>s \<in> set xs. id_is param s = Inr (has_id param s)"
  proof
    fix s assume "s \<in> set xs"
    with assms have "safe_record s" by auto
    then show "id_is param s = Inr (has_id param s)" by (rule id_is_has_id)
  qed
  then show ?thesis by (rule find_js_total)
qed

lemma filter_speakers:
  assumes "\<forall>s \<in> set xs. safe_record s"
  shows "filter_js (id_is_not param) xs = Inr (filter (\<lambda>s. \<not> has_id param s) xs)"
proof -
  have "\<forall>s \<in> set xs. id_is_not param s = Inr (\<not> has_id param s)"
  proof
    fix s assume "s \<in> set xs"
    with assms have "safe_record s" by auto
    then show "id_is_not param s = Inr (\<not> has_id param s)" by (rule id_is_not_has_id)
  qed
  then show ?thesis by (rule filter_js_total)
qed

lemma findIndex_no_speaker:
  assumes "\<forall>s \<in> set xs. safe_record s" and "\<forall>s \<in> set xs. \<not> has_id param s"
  shows "findIndex_js (id_is param) xs = Inr None"
proof -
  have "\<forall>s \<in> set xs. id_is param s = Inr False"
  proof
    fix s assume s: "s \<in> set xs"
    with assms(1) have "safe_record s" by auto
    with assms(2) s show "id_is param s = Inr False" by (simp add: id_is_has_id)
  qed
  then show ?thesis by (rule findIndex_js_none)
qed

lemma get_speaker_found:
  assumes xs: "fst (readSpeakersCached e st) = JArr xs" and nonnull: "\<forall>s \<in> set xs. safe_record s"
  shows "fst (get_api_speakers_id param e st) =
     (case List.find (has_id param) xs of
        None \<Rightarrow> Response 404 (error_body ''Speaker not found'')
      | Some s \<Rightarrow> Response 200 s)"
proof (cases "List.find (has_id param) xs")
  case None
  then show ?thesis
    using xs by (simp add: get_api_speakers_id_def split_beta find_speaker [OF nonnull])
next
  case (Some s)
  then have "has_id param s" by (auto simp: find_Some_iff)
  then obtain m where "s = JObj m" using has_id_object by blast
  with Some show ?thesis
    using xs by (simp add: get_api_speakers_id_def split_beta find_speaker [OF nonnull])
qed

lemma get_speaker_state:
  assumes xs: "fst (readSpeakersCached e st) = JArr xs" and safe: "\<forall>s \<in> set xs. safe_record s"
  shows "snd (get_api_speakers_id param e st) = snd (readSpeakersCached e st)"
  using xs
  by (simp add: get_api_speakers_id_def split_beta find_speaker [OF safe] split: option.splits)

lemma put_speaker_found:
  assumes auth: "isAuthenticated sess"
    and xs: "fst (readSpeakersCached e st) = JArr xs" and safe: "\<forall>s \<in> set xs. safe_record s"
    and i: "i < length xs" and n: "speaker_id (xs ! i) = Some n"
    and h: "has_id param (xs ! i)" and before: "\<forall>j < i. \<not> has_id param (xs ! j)"
  shows "put_api_speakers_id sess param body e st =
     (Response 200 (JObj (fmupd ''id'' (JNum n) (own_props (xs ! i) ++\<^sub>f own_props body))),
      writeSpeakersCached
        (JArr (xs[i := JObj (fmupd ''id'' (JNum n) (own_props (xs ! i) ++\<^sub>f own_props body))]))
        e (snd (readSpeakersCached e st)))"
proof -
  have nn: "\<And>j. j < length xs \<Longrightarrow> safe_record (xs ! j)"
    using safe by simp
  have "id_is param (xs ! i) = Inr True"
    using h nn [OF i] by (simp add: id_is_has_id)
  moreover have "\<forall>j < i. id_is param (xs ! j) = Inr False"
    using before i nn by (simp add: id_is_has_id)
  ultimately have f: "findIndex_js (id_is param) xs = Inr (Some i)"
    using i by (intro findIndex_js_first) auto
  from n obtain mo where mo: "xs ! i = JObj mo" and idv: "fmlookup mo ''id'' = Some (JNum n)"
    by (auto simp: speaker_id_Some)
  show ?thesis
    using auth xs
    by (simp add: put_api_speakers_id_def requireAuth_def put_api_speakers_id_handler_def
        split_beta f mo idv Let_def)
qed

lemma delete_speakers_found:
  assumes auth: "isAuthenticated sess"
    and xs: "fst (readSpeakersCached e st) = JArr xs" and safe: "\<forall>s \<in> set xs. safe_record s"
  shows "delete_api_speakers_id sess param e st =
     (if \<forall>s \<in> set xs. \<not> has_id param s
      then (Response 404 (error_body ''Not found''), snd (readSpeakersCached e st))
      else (Response 200 (message_body ''Deleted''),
            writeSpeakersCached (JArr (filter (\<lambda>s. \<not> has_id param s) xs)) e
              (snd (readSpeakersCached e st))))"
  using auth xs
  by (simp add: delete_api_speakers_id_def requireAuth_def delete_api_speakers_id_handler_def
      split_beta filter_speakers [OF safe] length_filter_same)

lemma speakers_not_found:
  assumes auth: "isAuthenticated sess"
    and xs: "fst (readSpeakersCached e st) = JArr xs" and safe: "\<forall>s \<in> set xs. safe_record s"
    and none: "\<forall>s \<in> set xs. \<not> has_id param s"
  shows "get_api_speakers_id param e st
      = (Response 404 (error_body ''Speaker not found''), snd (readSpeakersCached e st))"
    and "put_api_speakers_id sess param body e st
      = (Response 404 (error_body ''Speaker not found''), snd (readSpeakersCached e st))"
    and "delete_api_speakers_id sess param e st
      = (Response 404 (error_body ''Not found''), snd (readSpeakersCached e st))"
proof -
  have "List.find (has_id param) xs = None"
    using none by (simp add: find_None_iff)
  then have "fst (get_api_speakers_id param e st)
      = Response 404 (error_body ''Speaker not found'')"
    by (simp add: get_speaker_found [OF xs safe])
  then show "get_api_speakers_id param e st
      = (Response 404 (error_body ''Speaker not found''), snd (readSpeakersCached e st))"
    using get_speaker_state [OF xs safe, of param] by (simp add: prod_eq_iff)
  show "put_api_speakers_id sess param body e st
      = (Response 404 (error_body ''Speaker not found''), snd (readSpeakersCached e st))"
    using auth xs
    by (simp add: put_api_speakers_id_def requireAuth_def put_api_speakers_id_handler_def
        split_beta findIndex_no_speaker [OF safe none])
  show "delete_api_speakers_id sess param e st
      = (Response 404 (error_body ''Not found''), snd (readSpeakersCached e st))"
    using none by (simp add: delete_speakers_found [OF auth xs safe])
qed

text \<open>
  C10 (as amended). Take a request on a collection of safe records, authenticated
  where the route requires it. The id segment goes through \<open>parseInt\<close>.

  When the result is \<open>NaN\<close>, or a number that is no safe integer, get and update
  answer 404 \<open>Speaker not found\<close> and delete answers 404 \<open>Not found\<close>, and
  nothing is written.

  When the result is the safe integer \<open>n\<close>: get answers 200 with the first record
  whose id is \<open>n\<close>, and 404 when there is none; delete answers 200 \<open>Deleted\<close>
  and writes the collection without the records whose id is \<open>n\<close>, and answers 404
  and writes nothing when there is none; update answers 404 and writes nothing when
  there is none, and otherwise answers 200 with the merge of the body into the first
  record whose id is \<open>n\<close>, with the id \<open>n\<close>, and writes the collection with
  that record replaced.

  A segment made of decimal digits \<open>ds\<close> followed by characters that do not start
  with a decimal digit, and that does not start with \<open>0x\<close> or \<open>0X\<close>, gives the
  decimal value of \<open>ds\<close> when that is a safe integer. A segment that starts with
  \<open>0x\<close> or \<open>0X\<close> followed by hexadecimal digits \<open>hs\<close> gives the value of
  \<open>hs\<close> in base 16 when that is a safe integer. When the value is no safe
  integer, the result is none either.
\<close>

theorem path_id_goes_through_parseInt:
  assumes auth: "isAuthenticated sess"
    and xs: "fst (readSpeakersCached e st) = JArr xs" and safe: "\<forall>s \<in> set xs. safe_record s"
  shows "(parseInt param = NaN \<or> parseInt param = NotSafe \<longrightarrow>
            get_api_speakers_id param e st
              = (Response 404 (error_body ''Speaker not found''), snd (readSpeakersCached e st))
          \<and> put_api_speakers_id sess param body e st
              = (Response 404 (error_body ''Speaker not found''), snd (readSpeakersCached e st))
          \<and> delete_api_speakers_id sess param e st
              = (Response 404 (error_body ''Not found''), snd (readSpeakersCached e st)))
       \<and> (\<forall>n. parseInt param = SafeInt n \<longrightarrow>
            get_api_speakers_id param e st =
              (case List.find (\<lambda>s. speaker_id s = Some n) xs of
                 None \<Rightarrow> Response 404 (error_body ''Speaker not found'')
               | Some s \<Rightarrow> Response 200 s,
               snd (readSpeakersCached e st))
          \<and> delete_api_speakers_id sess param e st =
              (if \<forall>s \<in> set xs. speaker_id s \<noteq> Some n
               then (Response 404 (error_body ''Not found''), snd (readSpeakersCached e st))
               else (Response 200 (message_body ''Deleted''),
                     writeSpeakersCached (JArr (filter (\<lambda>s. speaker_id s \<noteq> Some n) xs)) e
                       (snd (readSpeakersCached e st))))
          \<and> ((\<forall>s \<in> set xs. speaker_id s \<noteq> Some n) \<longrightarrow>
                put_api_speakers_id sess param body e st
                  = (Response 404 (error_body ''Speaker not found''),
                     snd (readSpeakersCached e st)))
          \<and> (\<forall>i. i < length xs \<and> speaker_id (xs ! i) = Some n
                  \<and> (\<forall>j < i. speaker_id (xs ! j) \<noteq> Some n) \<longrightarrow>
                put_api_speakers_id sess param body e st =
                  (Response 200
                     (JObj (fmupd ''id'' (JNum n) (own_props (xs ! i) ++\<^sub>f own_props body))),
                   writeSpeakersCached
                     (JArr (xs[i := JObj (fmupd ''id'' (JNum n)
                                            (own_props (xs ! i) ++\<^sub>f own_props body))]))
                     e (snd (readSpeakersCached e st)))))
       \<and> (ds \<noteq> [] \<and> (\<forall>c \<in> set ds. isRadixDigit 10 c)
            \<and> (rest = [] \<or> \<not> isRadixDigit 10 (hd rest)) \<and> \<not> hasHexPrefix (ds @ rest) \<longrightarrow>
            parseInt (ds @ rest)
              = (if isSafeInteger (mathInt 10 ds) then SafeInt (mathInt 10 ds) else NotSafe))
       \<and> (hs \<noteq> [] \<and> (\<forall>c \<in> set hs. isRadixDigit 16 c)
            \<and> (tail = [] \<or> \<not> isRadixDigit 16 (hd tail)) \<longrightarrow>
            parseInt (''0x'' @ hs @ tail)
              = (if isSafeInteger (mathInt 16 hs) then SafeInt (mathInt 16 hs) else NotSafe)
          \<and> parseInt (''0X'' @ hs @ tail)
              = (if isSafeInteger (mathInt 16 hs) then SafeInt (mathInt 16 hs) else NotSafe))"
proof (intro conjI impI allI)
  assume "parseInt param = NaN \<or> parseInt param = NotSafe"
  with safe have none: "\<forall>s \<in> set xs. \<not> has_id param s"
    by (auto simp: has_id_NaN has_id_NotSafe)
  show "get_api_speakers_id param e st
      = (Response 404 (error_body ''Speaker not found''), snd (readSpeakersCached e st))"
    by (rule speakers_not_found(1) [OF auth xs safe none])
  show "put_api_speakers_id sess param body e st
      = (Response 404 (error_body ''Speaker not found''), snd (readSpeakersCached e st))"
    by (rule speakers_not_found(2) [OF auth xs safe none])
  show "delete_api_speakers_id sess param e st
      = (Response 404 (error_body ''Not found''), snd (readSpeakersCached e st))"
    by (rule speakers_not_found(3) [OF auth xs safe none])
next
  fix n
  assume p: "parseInt param = SafeInt n"
  have hi: "has_id param = (\<lambda>s. speaker_id s = Some n)"
    by (simp add: fun_eq_iff has_id_number [OF p])
  have "fst (get_api_speakers_id param e st) =
      (case List.find (\<lambda>s. speaker_id s = Some n) xs of
         None \<Rightarrow> Response 404 (error_body ''Speaker not found'')
       | Some s \<Rightarrow> Response 200 s)"
    using get_speaker_found [OF xs safe, of param] by (simp add: hi)
  then show "get_api_speakers_id param e st =
      (case List.find (\<lambda>s. speaker_id s = Some n) xs of
         None \<Rightarrow> Response 404 (error_body ''Speaker not found'')
       | Some s \<Rightarrow> Response 200 s,
       snd (readSpeakersCached e st))"
    using get_speaker_state [OF xs safe, of param] by (simp add: prod_eq_iff)
  show "delete_api_speakers_id sess param e st =
      (if \<forall>s \<in> set xs. speaker_id s \<noteq> Some n
       then (Response 404 (error_body ''Not found''), snd (readSpeakersCached e st))
       else (Response 200 (message_body ''Deleted''),
             writeSpeakersCached (JArr (filter (\<lambda>s. speaker_id s \<noteq> Some n) xs)) e
               (snd (readSpeakersCached e st))))"
    using delete_speakers_found [OF auth xs safe, of param] by (simp add: hi)
  {
    assume "\<forall>s \<in> set xs. speaker_id s \<noteq> Some n"
    then have none: "\<forall>s \<in> set xs. \<not> has_id param s"
      by (simp add: hi)
    show "put_api_speakers_id sess param body e st
        = (Response 404 (error_body ''Speaker not found''), snd (readSpeakersCached e st))"
      by (rule speakers_not_found(2) [OF auth xs safe none])
  }
  {
    fix i
    assume a: "i < length xs \<and> speaker_id (xs ! i) = Some n
        \<and> (\<forall>j < i. speaker_id (xs ! j) \<noteq> Some n)"
    then have i: "i < length xs" and n: "speaker_id (xs ! i) = Some n"
      and h: "has_id param (xs ! i)" and before: "\<forall>j < i. \<not> has_id param (xs ! j)"
      by (simp_all add: hi)
    show "put_api_speakers_id sess param body e st =
        (Response 200 (JObj (fmupd ''id'' (JNum n) (own_props (xs ! i) ++\<^sub>f own_props body))),
         writeSpeakersCached
           (JArr (xs[i := JObj (fmupd ''id'' (JNum n)
                                  (own_props (xs ! i) ++\<^sub>f own_props body))]))
           e (snd (readSpeakersCached e st)))"
      by (rule put_speaker_found [OF auth xs safe i n h before])
  }
next
  assume "ds \<noteq> [] \<and> (\<forall>c \<in> set ds. isRadixDigit 10 c)
      \<and> (rest = [] \<or> \<not> isRadixDigit 10 (hd rest)) \<and> \<not> hasHexPrefix (ds @ rest)"
  then show "parseInt (ds @ rest)
      = (if isSafeInteger (mathInt 10 ds) then SafeInt (mathInt 10 ds) else NotSafe)"
    by (intro parseInt_decimal_prefix) auto
next
  assume a: "hs \<noteq> [] \<and> (\<forall>c \<in> set hs. isRadixDigit 16 c)
      \<and> (tail = [] \<or> \<not> isRadixDigit 16 (hd tail))"
  then show "parseInt (''0x'' @ hs @ tail)
      = (if isSafeInteger (mathInt 16 hs) then SafeInt (mathInt 16 hs) else NotSafe)"
    by (intro parseInt_hex(1)) auto
  from a show "parseInt (''0X'' @ hs @ tail)
      = (if isSafeInteger (mathInt 16 hs) then SafeInt (mathInt 16 hs) else NotSafe)"
    by (intro parseInt_hex(2)) auto
qed

text \<open>
  C10 as stated fails on a segment with the prefix \<open>0x\<close>: the decimal digits that
  \<open>0x1f\<close> starts with are \<open>0\<close>, the characters after them are no decimal digits,
  and the request matches the speaker with id 31, not the one with id 0.
\<close>

theorem hex_segment_is_not_its_decimal_prefix:
  "takeWhile (isRadixDigit 10) ''0x1f'' = ''0''
   \<and> mathInt 10 ''0'' = 0
   \<and> parseInt ''0x1f'' = SafeInt 31
   \<and> fst (get_api_speakers_id ''0x1f'' (at_time 2000)
        (with_speakers [speaker 0 ''Ada'', speaker 31 ''Bob''] startup))
       = Response 200 (speaker 31 ''Bob'')"
  by code_simp

section \<open>The theorems at sample requests\<close>

text \<open>
  C6 as stated fails when one user is left and the target is absent: the only user
  is \<open>admin\<close>, the session is the admin's, the target \<open>ghost\<close> names no user, and
  the answer is 400 \<open>Cannot delete the last user\<close>, not 404.
\<close>

theorem absent_user_with_one_user_left:
  "content (fs startup USERS_FILE) = JArr [admin_user]
   \<and> named_user ''admin'' admin_user
   \<and> \<not> named_user ''ghost'' admin_user
   \<and> username admin_session = Some (JStr ''admin'')
   \<and> fst (delete_api_users admin_session ''ghost'' (at_time 2000) startup)
       = Response 400 (error_body ''Cannot delete the last user'')"
  by code_simp

theorem delete_user_outcomes_witness:
  "isAuthenticated admin_session
   \<and> content (fs (with_users [admin_user, bob_user] startup) USERS_FILE)
       = JArr [admin_user, bob_user]
   \<and> fst (delete_api_users admin_session ''bob'' (at_time 2000)
        (with_users [admin_user, bob_user] startup))
       = Response 200 (success_body ''User deleted successfully'')
   \<and> content (fs (snd (delete_api_users admin_session ''bob'' (at_time 2000)
        (with_users [admin_user, bob_user] startup))) USERS_FILE)
       = JArr [admin_user]"
proof -
  have h1: "isAuthenticated admin_session"
    by (simp add: admin_session_def)
  have h2: "content (fs (with_users [admin_user, bob_user] startup) USERS_FILE)
      = JArr [admin_user, bob_user]"
    by (simp add: with_users_def)
  have h3: "JNull \<notin> set [admin_user, bob_user]"
    by (simp add: admin_user_def bob_user_def)
  have n: "\<not> named_user ''bob'' admin_user" "named_user ''bob'' bob_user"
    by (simp_all add: named_user_def admin_user_def bob_user_def)
  show ?thesis
    using delete_user_outcomes [OF h1 h2 h3, of "''bob''" "at_time 2000"] h1 h2 n
    by (simp add: admin_session_def)
qed

theorem users_listed_without_passwordHash_witness:
  "isAuthenticated admin_session
   \<and> (\<exists>out. get_api_users admin_session (with_users [admin_user, bob_user] startup)
          = (Response 200 (JArr out), with_users [admin_user, bob_user] startup)
        \<and> length out = 2
        \<and> get_prop (out ! 1) ''username'' = Inr (Some (JStr ''bob''))
        \<and> get_prop (out ! 1) ''passwordHash'' = Inr None)"
proof -
  have h1: "isAuthenticated admin_session"
    by (simp add: admin_session_def)
  have h2: "content (fs (with_users [admin_user, bob_user] startup) USERS_FILE)
      = JArr [admin_user, bob_user]"
    by (simp add: with_users_def)
  have h3: "JNull \<notin> set [admin_user, bob_user]"
    by (simp add: admin_user_def bob_user_def)
  from users_listed_without_passwordHash [OF h1 h2 h3]
  obtain out where
    "get_api_users admin_session (with_users [admin_user, bob_user] startup)
        = (Response 200 (JArr out), with_users [admin_user, bob_user] startup)"
    "length out = length [admin_user, bob_user]"
    "get_prop (out ! 1) ''username'' = get_prop ([admin_user, bob_user] ! 1) ''username''"
    "get_prop (out ! 1) ''passwordHash'' = Inr None"
    by force
  then show ?thesis
    using h1 by (auto simp: bob_user_def)
qed

theorem update_merges_and_keeps_id_witness:
  "isAuthenticated admin_session
   \<and> fst (put_api_speakers_id admin_session ''5''
        (JObj (fmap_of_list [(''id'', JNum 99), (''name'', JStr ''Bea'')])) (at_time 2000)
        (with_speakers [speaker 1 ''Ada'', speaker 2 ''Bob''] startup))
       = Response 404 (error_body ''Speaker not found'')
   \<and> (\<exists>m. fst (put_api_speakers_id admin_session ''2''
          (JObj (fmap_of_list [(''id'', JNum 99), (''name'', JStr ''Bea'')])) (at_time 2000)
          (with_speakers [speaker 1 ''Ada'', speaker 2 ''Bob''] startup))
         = Response 200 (JObj m)
        \<and> fmlookup m ''id'' = Some (JNum 2)
        \<and> fmlookup m ''name'' = Some (JStr ''Bea''))"
proof -
  let ?xs = "[speaker 1 ''Ada'', speaker 2 ''Bob'']"
  let ?st = "with_speakers ?xs startup"
  let ?body = "JObj (fmap_of_list [(''id'', JNum 99), (''name'', JStr ''Bea'')])"
  have h1: "isAuthenticated admin_session"
    by (simp add: admin_session_def)
  have h2: "fst (readSpeakersCached (at_time 2000) ?st) = JArr ?xs"
    by (simp add: readSpeakersCached_value stale_def with_speakers_def startup_def)
  have h3: "\<forall>s \<in> set ?xs. safe_record s"
    by (simp add: speaker_def safe_record_def isSafeInteger_def)
  have p5: "readInteger ''5'' = Some 5" by code_simp
  have p2: "readInteger ''2'' = Some 2" by code_simp
  have none: "\<forall>s \<in> set ?xs. \<not> has_id ''5'' s"
    by (simp add: has_id_def p5 speaker_def)
  have first: "1 < length ?xs \<and> has_id ''2'' (?xs ! 1) \<and> (\<forall>j < 1. \<not> has_id ''2'' (?xs ! j))"
    by (simp add: has_id_def p2 speaker_def)
  have r5: "fst (put_api_speakers_id admin_session ''5'' ?body (at_time 2000) ?st)
      = Response 404 (error_body ''Speaker not found'')"
    using update_merges_and_keeps_id [OF h1 h2 h3, of "''5''" ?body] none by blast
  from update_merges_and_keeps_id [OF h1 h2 h3, of "''2''" ?body] first
  obtain m where m: "fst (put_api_speakers_id admin_session ''2'' ?body (at_time 2000) ?st)
        = Response 200 (JObj m)"
    "fmlookup m ''id'' = fmlookup (own_props (?xs ! 1)) ''id''"
    "\<forall>k. k \<noteq> ''id'' \<longrightarrow> fmlookup m k = merged_field (?xs ! 1) ?body k"
    by blast
  have "fmlookup m ''id'' = Some (JNum 2)"
    using m(2) by (simp add: speaker_def)
  moreover have "fmlookup m ''name'' = Some (JStr ''Bea'')"
    using m(3) by (simp add: merged_field_def)
  ultimately show ?thesis
    using h1 r5 m(1) by blast
qed

theorem path_id_goes_through_parseInt_witness:
  "isAuthenticated admin_session
   \<and> parseInt ''abc'' = NaN
   \<and> fst (get_api_speakers_id ''abc'' (at_time 2000)
        (with_speakers [speaker 7 ''Ada'', speaker 31 ''Bob''] startup))
       = Response 404 (error_body ''Speaker not found'')
   \<and> fst (delete_api_speakers_id admin_session ''abc'' (at_time 2000)
        (with_speakers [speaker 7 ''Ada'', speaker 31 ''Bob''] startup))
       = Response 404 (error_body ''Not found'')
   \<and> parseInt ''7abc'' = SafeInt 7
   \<and> fst (get_api_speakers_id ''7abc'' (at_time 2000)
        (with_speakers [speaker 7 ''Ada'', speaker 31 ''Bob''] startup))
       = Response 200 (speaker 7 ''Ada'')
   \<and> fst (put_api_speakers_id admin_session ''7abc'' (named ''Bea'') (at_time 2000)
        (with_speakers [speaker 7 ''Ada'', speaker 31 ''Bob''] startup))
       = Response 200 (JObj (fmupd ''id'' (JNum 7)
           (own_props (speaker 7 ''Ada'') ++\<^sub>f own_props (named ''Bea''))))
   \<and> parseInt ''0x1f'' = SafeInt 31
   \<and> fst (delete_api_speakers_id admin_session ''0x1f'' (at_time 2000)
        (with_speakers [speaker 7 ''Ada'', speaker 31 ''Bob''] startup))
       = Response 200 (message_body ''Deleted'')
   \<and> content (fs (snd (delete_api_speakers_id admin_session ''0x1f'' (at_time 2000)
        (with_speakers [speaker 7 ''Ada'', speaker 31 ''Bob''] startup))) SPEAKERS_FILE)
       = JArr [speaker 7 ''Ada'']"
proof -
  let ?xs = "[speaker 7 ''Ada'', speaker 31 ''Bob'']"
  let ?st = "with_speakers ?xs startup"
  have h1: "isAuthenticated admin_session"
    by (simp add: admin_session_def)
  have h2: "fst (readSpeakersCached (at_time 2000) ?st) = JArr ?xs"
    by (simp add: readSpeakersCached_value stale_def with_speakers_def startup_def)
  have h3: "\<forall>s \<in> set ?xs. safe_record s"
    by (simp add: speaker_def safe_record_def isSafeInteger_def)
  have nan: "parseInt ''abc'' = NaN" by code_simp
  have dec: "''7'' \<noteq> [] \<and> (\<forall>c \<in> set ''7''. isRadixDigit 10 c)
      \<and> (''abc'' = [] \<or> \<not> isRadixDigit 10 (hd ''abc'')) \<and> \<not> hasHexPrefix (''7'' @ ''abc'')"
    by (simp add: isRadixDigit_10 hasHexPrefix_def)
  have hex: "''1f'' \<noteq> [] \<and> (\<forall>c \<in> set ''1f''. isRadixDigit 16 c)
      \<and> ([] = [] \<or> \<not> isRadixDigit 16 (hd []))"
    by (simp add: isRadixDigit_16)
  have v: "mathInt 10 ''7'' = 7" "mathInt 16 ''1f'' = 31"
    by (simp_all add: mathInt_def digitValue_def)
  have s: "isSafeInteger 7" "isSafeInteger 31"
    by (simp_all add: isSafeInteger_def)
  have ids: "speaker_id (speaker 7 ''Ada'') = Some 7" "speaker_id (speaker 31 ''Bob'') = Some 31"
    by (simp_all add: speaker_def)
  note t1 = path_id_goes_through_parseInt [OF h1 h2 h3, where param = "''abc''"]
  note t2 = path_id_goes_through_parseInt [OF h1 h2 h3,
      where param = "''7abc''" and ds = "''7''" and rest = "''abc''"
        and body = "named ''Bea''"]
  note t3 = path_id_goes_through_parseInt [OF h1 h2 h3,
      where param = "''0x1f''" and hs = "''1f''" and tail = "[]"]
  note n1 = t1 [THEN conjunct1, THEN mp, OF disjI1, OF nan]
  have r1: "fst (get_api_speakers_id ''abc'' (at_time 2000) ?st)
        = Response 404 (error_body ''Speaker not found'')"
    by (simp only: n1 [THEN conjunct1] fst_conv)
  have r1': "fst (delete_api_speakers_id admin_session ''abc'' (at_time 2000) ?st)
        = Response 404 (error_body ''Not found'')"
    by (simp only: n1 [THEN conjunct2, THEN conjunct2] fst_conv)
  have p7: "parseInt ''7abc'' = SafeInt 7"
    using t2 [THEN conjunct2, THEN conjunct2, THEN conjunct1, THEN mp, OF dec]
    by (simp add: v s)
  note n2 = t2 [THEN conjunct2, THEN conjunct1, THEN spec, THEN mp, OF p7]
  have r2: "fst (get_api_speakers_id ''7abc'' (at_time 2000) ?st)
        = Response 200 (speaker 7 ''Ada'')"
    by (simp add: n2 [THEN conjunct1] ids)
  have first: "0 < length ?xs \<and> speaker_id (?xs ! 0) = Some 7
      \<and> (\<forall>j < 0. speaker_id (?xs ! j) \<noteq> Some 7)"
    by (simp add: ids)
  have r3: "fst (put_api_speakers_id admin_session ''7abc'' (named ''Bea'')
        (at_time 2000) ?st)
      = Response 200 (JObj (fmupd ''id'' (JNum 7)
          (own_props (speaker 7 ''Ada'') ++\<^sub>f own_props (named ''Bea''))))"
    using n2 [THEN conjunct2, THEN conjunct2, THEN conjunct2, THEN spec, THEN mp, OF first]
    by simp
  have p31: "parseInt ''0x1f'' = SafeInt 31"
    using t3 [THEN conjunct2, THEN conjunct2, THEN conjunct2, THEN mp, OF hex, THEN conjunct1]
    by (simp add: v s)
  note n3 = t3 [THEN conjunct2, THEN conjunct1, THEN spec, THEN mp, OF p31]
  have d: "delete_api_speakers_id admin_session ''0x1f'' (at_time 2000) ?st
      = (Response 200 (message_body ''Deleted''),
         writeSpeakersCached (JArr [speaker 7 ''Ada'']) (at_time 2000)
           (snd (readSpeakersCached (at_time 2000) ?st)))"
    by (simp add: n3 [THEN conjunct2, THEN conjunct1] ids)
  show ?thesis
    using h1 nan r1 r1' p7 r2 r3 p31 by (simp add: d write_speakers_facts)
qed

end
